theory Spec2Isabelle
  imports Complex_Main "HOL-Library.Monad_Syntax"
begin

section \<open>Strings of the source language\<close>

text \<open>
  A TypeScript string is a sequence of UTF-16 code units. A code unit is modelled as a
  natural number and a string as a list of them, so that every character of the alias
  table (which has letters beyond Latin-1) is one element, as it is for the program.
  \<open>js\<close> turns an ASCII literal into such a string.
\<close>

type_synonym jsstring = "nat list"

definition js :: "string \<Rightarrow> jsstring" where
  "js s = map of_char s"

text \<open>
  White space and line terminators of ECMAScript: what \<open>String.prototype.trim\<close> strips
  and what \<open>\s\<close> matches in a regular expression.
\<close>

definition isWhiteSpace :: "nat \<Rightarrow> bool" where
  "isWhiteSpace c =
     (c = 9 \<or> c = 10 \<or> c = 11 \<or> c = 12 \<or> c = 13 \<or> c = 32 \<or> c = 160 \<or> c = 5760
      \<or> (8192 \<le> c \<and> c \<le> 8202) \<or> c = 8232 \<or> c = 8233 \<or> c = 8239 \<or> c = 8287
      \<or> c = 12288 \<or> c = 65279)"

definition trim :: "jsstring \<Rightarrow> jsstring" where
  "trim s = rev (dropWhile isWhiteSpace (rev (dropWhile isWhiteSpace s)))"

text \<open>\<open>[...new Set(xs)]\<close>: the distinct elements, each at its first occurrence.\<close>

definition setToArray :: "'a list \<Rightarrow> 'a list" where
  "setToArray xs = foldl (\<lambda>acc x. if x \<in> set acc then acc else acc @ [x]) [] xs"

text \<open>
  \<open>new Map(entries)\<close>: a later entry with the same key replaces the earlier one.
  \<open>Map.get\<close> is application: \<open>None\<close> is \<open>undefined\<close>.
\<close>

definition newMap :: "('k \<times> 'v) list \<Rightarrow> ('k \<rightharpoonup> 'v)" where
  "newMap entries = foldl (\<lambda>m (k, v). m(k \<mapsto> v)) Map.empty entries"

section \<open>Version lifecycle: \<open>getOpenVersionsAndFilterIssues\<close>\<close>

text \<open>
  \<open>interface Issue { fix_version?: string | null; [key: string]: any }\<close>. The function is
  generic in \<open>T extends Issue\<close>: an extensible record. \<open>undefined\<close> and \<open>null\<close> are both
  \<open>None\<close>; the function only tests the field for truthiness, where they agree.
\<close>

record Issue =
  fix_version :: "jsstring option"

text \<open>A row of the \<open>versions\<close> table as selected: \<open>name, description\<close>.\<close>

record version_row =
  name :: jsstring
  description :: "jsstring option"

text \<open>
  The awaited store read: it throws, or it yields \<open>{ data }\<close> where \<open>data\<close> is the
  selected rows or \<open>null\<close>.
\<close>

datatype query_outcome = Throws | Returns "version_row list option"

record 'a filter_result =
  filteredIssues :: "'a list"
  openVersions :: "jsstring list"

text \<open>A value is truthy unless it is \<open>undefined\<close>, \<open>null\<close> or the empty string.\<close>

definition truthy :: "jsstring option \<Rightarrow> bool" where
  "truthy v = (case v of None \<Rightarrow> False | Some s \<Rightarrow> s \<noteq> [])"

text \<open>
  Lines 17-19: \<open>[...new Set(issues.map(i => i.fix_version).filter(Boolean))]\<close>.
\<close>

definition uniqueVersionsOf :: "'a Issue_scheme list \<Rightarrow> jsstring list" where
  "uniqueVersionsOf issues =
     setToArray (map the (filter truthy (map Issue.fix_version issues)))"

text \<open>
  Lines 38-39, the body of the filter callback: \<open>descr\<close> is what \<open>versionsMap.get\<close>
  gave (\<open>None\<close>: no entry; \<open>Some None\<close>: a stored \<open>null\<close>), and the result is
  \<open>!description || description.trim() === ''\<close>.
\<close>

definition isOpenDescription :: "jsstring option option \<Rightarrow> bool" where
  "isOpenDescription descr =
     (case descr of
        None \<Rightarrow> True
      | Some None \<Rightarrow> True
      | Some (Some d) \<Rightarrow> d = [] \<or> trim d = [])"

definition versionsMapOf :: "version_row list option \<Rightarrow> (jsstring \<rightharpoonup> jsstring option)" where
  "versionsMapOf versionsData =
     newMap (map (\<lambda>v. (name v, description v))
                 (case versionsData of None \<Rightarrow> [] | Some rows \<Rightarrow> rows))"

definition getOpenVersionsAndFilterIssues ::
    "(jsstring list \<Rightarrow> query_outcome) \<Rightarrow> 'a Issue_scheme list \<Rightarrow> 'a Issue_scheme filter_result" where
  "getOpenVersionsAndFilterIssues fetch issues =
     (let uniqueVersions = uniqueVersionsOf issues in
      if length uniqueVersions = 0
      then \<lparr>filteredIssues = issues, openVersions = []\<rparr>
      else
        (case fetch uniqueVersions of
           Throws \<Rightarrow> \<lparr>filteredIssues = issues, openVersions = []\<rparr>
         | Returns versionsData \<Rightarrow>
             (let versionsMap = versionsMapOf versionsData;
                  openVs = filter (\<lambda>versionName. isOpenDescription (versionsMap versionName))
                             uniqueVersions;
                  filtered = filter (\<lambda>issue. \<not> truthy (Issue.fix_version issue)
                                        \<or> the (Issue.fix_version issue) \<notin> set openVs) issues
              in \<lparr>filteredIssues = filtered, openVersions = openVs\<rparr>)))"

section \<open>The \<open>debugVersions\<close> script\<close>

text \<open>
  Lines 23-24 of the script, over the rows the store returned:
  \<open>versions.filter(v => v.description !== null && v.description.trim() === '-')\<close> and
  \<open>versions.filter(v => !v.description || v.description.trim() !== '-')\<close>.
\<close>

definition debugIsOpen :: "version_row \<Rightarrow> bool" where
  "debugIsOpen v = (description v \<noteq> None \<and> trim (the (description v)) = js ''-'')"

definition debugIsClosed :: "version_row \<Rightarrow> bool" where
  "debugIsClosed v = (\<not> truthy (description v) \<or> trim (the (description v)) \<noteq> js ''-'')"

definition debugOpenVersions :: "version_row list \<Rightarrow> version_row list" where
  "debugOpenVersions versions = filter debugIsOpen versions"

definition debugClosedVersions :: "version_row list \<Rightarrow> version_row list" where
  "debugClosedVersions versions = filter debugIsClosed versions"

section \<open>The CSV parser: rows and the tabular parser\<close>

text \<open>
  \<open>interface CSVRow { [key: string]: string }\<close>. A row is modelled by its own string-keyed
  properties in the order \<open>Object.keys\<close> lists them, each key once. \<open>row[name]\<close> is
  \<open>map_of row name\<close>, with \<open>None\<close> for \<open>undefined\<close>. The parser reads a row only at
  names of the alias table and at the row's own keys, where nothing is inherited from
  \<open>Object.prototype\<close>.
\<close>

type_synonym CSVRow = "(jsstring \<times> jsstring) list"

text \<open>\<open>Object.keys(row)\<close>.\<close>

definition objectKeys :: "CSVRow \<Rightarrow> jsstring list" where
  "objectKeys row = map fst row"

definition isDigit :: "nat \<Rightarrow> bool" where
  "isDigit c = (48 \<le> c \<and> c \<le> 57)"

text \<open>\<open>parseInt(s, 10)\<close> on a string of decimal digits.\<close>

definition digitsValue :: "jsstring \<Rightarrow> nat" where
  "digitsValue ds = foldl (\<lambda>acc c. 10 * acc + (c - 48)) 0 ds"

text \<open>The decimal text of a number that is a natural number, as a template literal prints it.\<close>

fun showNat :: "nat \<Rightarrow> jsstring" where
  "showNat n = (if n < 10 then [48 + n] else showNat (n div 10) @ [48 + n mod 10])"

declare showNat.simps [simp del]

text \<open>
  The order of \<open>Object.keys\<close>: array indices (canonical decimal strings below
  \<open>2^32 - 1\<close>) ascending, then the other keys in creation order. An assignment to an
  existing key keeps its place. An assignment to \<open>__proto__\<close> of a string value creates
  no property.
\<close>

definition isArrayIndex :: "jsstring \<Rightarrow> bool" where
  "isArrayIndex k =
     (k \<noteq> [] \<and> list_all isDigit k \<and> (k = [48] \<or> hd k \<noteq> 48) \<and> digitsValue k < 4294967295)"

fun insertIndexKey :: "jsstring \<Rightarrow> jsstring \<Rightarrow> CSVRow \<Rightarrow> CSVRow" where
  "insertIndexKey k v [] = [(k, v)]"
| "insertIndexKey k v ((k', v') # row) =
     (if isArrayIndex k' \<and> digitsValue k' < digitsValue k
      then (k', v') # insertIndexKey k v row
      else (k, v) # (k', v') # row)"

definition setProperty :: "CSVRow \<Rightarrow> jsstring \<Rightarrow> jsstring \<Rightarrow> CSVRow" where
  "setProperty row k v =
     (if k = js ''__proto__'' then row
      else if k \<in> set (objectKeys row)
      then map (\<lambda>(k', v'). if k' = k then (k', v) else (k', v')) row
      else if isArrayIndex k then insertIndexKey k v row
      else row @ [(k, v)])"

text \<open>
  \<open>parseCSVLine\<close>: the loop over the characters of the line, with its three variables.
  The double quote is 34, the comma 44. In the escaped-quote branch the loop skips the
  next character too.
\<close>

fun parseCSVLineLoop :: "jsstring \<Rightarrow> jsstring list \<Rightarrow> jsstring \<Rightarrow> bool \<Rightarrow> jsstring list" where
  "parseCSVLineLoop [] result current inQuotes = result @ [trim current]"
| "parseCSVLineLoop (char # rest) result current inQuotes =
     (if char = 34 then
        (case rest of
           [] \<Rightarrow> parseCSVLineLoop rest result current (\<not> inQuotes)
         | nextChar # rest' \<Rightarrow>
             if inQuotes \<and> nextChar = 34
             then parseCSVLineLoop rest' result (current @ [34]) inQuotes
             else parseCSVLineLoop rest result current (\<not> inQuotes))
      else if char = 44 \<and> \<not> inQuotes
      then parseCSVLineLoop rest (result @ [trim current]) [] inQuotes
      else parseCSVLineLoop rest result (current @ [char]) inQuotes)"

definition parseCSVLine :: "jsstring \<Rightarrow> jsstring list" where
  "parseCSVLine line = parseCSVLineLoop line [] [] False"

text \<open>
  \<open>text.split(/\r?\n/)\<close>: the text is cut at every line feed (10), and a carriage
  return (13) right before the line feed belongs to the separator.
\<close>

fun splitLines :: "jsstring \<Rightarrow> jsstring \<Rightarrow> jsstring list" where
  "splitLines [] piece = [piece]"
| "splitLines (c # rest) piece =
     (if c = 10 then piece # splitLines rest []
      else if c = 13 then
        (case rest of
           [] \<Rightarrow> splitLines rest (piece @ [c])
         | c' # rest' \<Rightarrow>
             if c' = 10 then piece # splitLines rest' []
             else splitLines rest (piece @ [c]))
      else splitLines rest (piece @ [c]))"

text \<open>
  \<open>headerCounts\<close> is an object literal \<open>{}\<close>, so a lookup that finds no own property
  goes on to \<open>Object.prototype\<close>. The own properties are modelled by a map whose values
  are a count or \<open>NaN\<close> (\<open>None\<close>). For the name of a method of \<open>Object.prototype\<close> the
  lookup yields the function, which is not \<open>undefined\<close>: the increment stores \<open>NaN\<close>, and
  the header becomes \<open>name_NaN\<close>. For \<open>__proto__\<close> the increment stores nothing (the
  setter ignores a number) and the header becomes \<open>__proto___[object Object]\<close>.
\<close>

definition objectPrototypeMethods :: "jsstring list" where
  "objectPrototypeMethods =
     [js ''constructor'', js ''hasOwnProperty'', js ''isPrototypeOf'',
      js ''propertyIsEnumerable'', js ''toLocaleString'', js ''toString'', js ''valueOf'',
      js ''__defineGetter__'', js ''__defineSetter__'', js ''__lookupGetter__'',
      js ''__lookupSetter__'']"

definition inheritedName :: "jsstring \<Rightarrow> bool" where
  "inheritedName h = (h = js ''__proto__'' \<or> h \<in> set objectPrototypeMethods)"

fun uniqueHeaders :: "(jsstring \<rightharpoonup> nat option) \<Rightarrow> jsstring list \<Rightarrow> jsstring list" where
  "uniqueHeaders headerCounts [] = []"
| "uniqueHeaders headerCounts (header # rawHeaders) =
     (let trimmedHeader = trim header in
      case headerCounts trimmedHeader of
        Some (Some n) \<Rightarrow>
          (trimmedHeader @ js ''_'' @ showNat (n + 1))
            # uniqueHeaders (headerCounts(trimmedHeader \<mapsto> Some (n + 1))) rawHeaders
      | Some None \<Rightarrow>
          (trimmedHeader @ js ''_NaN'') # uniqueHeaders headerCounts rawHeaders
      | None \<Rightarrow>
          if trimmedHeader = js ''__proto__''
          then (trimmedHeader @ js ''_[object Object]'') # uniqueHeaders headerCounts rawHeaders
          else if trimmedHeader \<in> set objectPrototypeMethods
          then (trimmedHeader @ js ''_NaN'')
                 # uniqueHeaders (headerCounts(trimmedHeader \<mapsto> None)) rawHeaders
          else trimmedHeader
                 # uniqueHeaders (headerCounts(trimmedHeader \<mapsto> Some 1)) rawHeaders)"

text \<open>
  The body of the loop over the data lines: \<open>None\<close> for a line that is skipped
  (\<open>continue\<close>), else the row. \<open>values[index] || ''\<close> is the empty string where the
  line has no such field.
\<close>

definition valueAt :: "jsstring list \<Rightarrow> nat \<Rightarrow> jsstring" where
  "valueAt values index = (if index < length values then values ! index else [])"

definition buildRow :: "jsstring list \<Rightarrow> jsstring list \<Rightarrow> CSVRow" where
  "buildRow headers values =
     foldl (\<lambda>row (header, index). setProperty row header (valueAt values index))
           [] (zip headers [0 ..< length headers])"

definition parseDataLine :: "jsstring list \<Rightarrow> jsstring \<Rightarrow> CSVRow option" where
  "parseDataLine headers line =
     (let values = parseCSVLine line in
      if length values = 0 \<or> (length values = 1 \<and> values ! 0 = []) then None
      else Some (buildRow headers values))"

definition nonBlankLines :: "jsstring \<Rightarrow> jsstring list" where
  "nonBlankLines text = filter (\<lambda>line. trim line \<noteq> []) (splitLines text [])"

definition parseCSV :: "jsstring \<Rightarrow> CSVRow list" where
  "parseCSV text =
     (let lines = nonBlankLines text in
      if length lines < 2 then []
      else
        (let rawHeaders = parseCSVLine (hd lines);
             headers = uniqueHeaders Map.empty rawHeaders
         in map the (filter (\<lambda>r. r \<noteq> None) (map (parseDataLine headers) (tl lines)))))"

text \<open>
  The disambiguation of headers in the words of the specification, for the refinement
  proof: the second, third, ... occurrence of a name gets the suffix \<open>_2\<close>, \<open>_3\<close>, ...
  \<open>seen\<close> holds the names to the left.
\<close>

fun spec_suffixDuplicates :: "jsstring list \<Rightarrow> jsstring list \<Rightarrow> jsstring list" where
  "spec_suffixDuplicates seen [] = []"
| "spec_suffixDuplicates seen (h # hs) =
     (if count_list seen h = 0 then h else h @ js ''_'' @ showNat (count_list seen h + 1))
       # spec_suffixDuplicates (seen @ [h]) hs"

section \<open>The schema resolver\<close>

text \<open>
  \<open>COLUMN_MAPPINGS\<close>, in the order of the source. The letters outside ASCII are given by
  their code units: 227, 231, 237, 245 and 250 are the accented Latin letters of the
  Portuguese names and 931 is the capital sigma.
\<close>

definition COLUMN_MAPPINGS :: "(jsstring \<times> jsstring list) list" where
  "COLUMN_MAPPINGS =
     [(js ''issue_key'',
         [js ''Chave da item'', js ''Chave do item'', js ''Issue Key'', js ''Issue key'',
          js ''Key'', js ''key'', js ''Issue ID'', js ''issue_key'']),
      (js ''summary'',
         [js ''Resumo'', js ''Summary'', js ''summary'', js ''T'' @ [237] @ js ''tulo'',
          js ''Title'', js ''Description'']),
      (js ''issue_type'',
         [js ''Tipo de item'', js ''Tipo do item'', js ''Issue Type'', js ''Issue type'',
          js ''Type'', js ''type'', js ''issue_type'', js ''Tipo'']),
      (js ''status'', [js ''Status'', js ''status'', js ''Estado'', js ''State'']),
      (js ''project'',
         [js ''Project'', js ''project'', js ''Projeto'', js ''Project Key'', js ''Project key'']),
      (js ''fix_version'',
         [js ''Vers'' @ [245] @ js ''es corrigidas'', js ''Fix Version'', js ''Fix version'',
          js ''Fix Version/s'', js ''Vers'' @ [227] @ js ''o'', js ''Version'',
          js ''fix_version'']),
      (js ''created_date'',
         [js ''Criado'', js ''Created'', js ''created'', js ''Created Date'',
          js ''Data de Cria'' @ [231, 227] @ js ''o'', js ''created_date'']),
      (js ''resolved_date'',
         [js ''Resolvido'', js ''Resolved'', js ''resolved'', js ''Resolved Date'',
          js ''Resolution Date'', js ''Data de Resolu'' @ [231, 227] @ js ''o'',
          js ''resolved_date'']),
      (js ''system'',
         [js ''Campo personalizado (N'' @ [250] @ js ''cleo)'', js ''N'' @ [250] @ js ''cleo'',
          js ''System'', js ''system'', js ''Sistema'', js ''Component'', js ''Components'']),
      (js ''original_estimate'',
         [[931] @ js '' da Estimativa Original'', js ''Original Estimate'',
          js ''Estimativa Original'', js ''original_estimate'']),
      (js ''time_spent'',
         [[931] @ js '' de Tempo Gasto'', js ''Time Spent'', js ''Tempo Gasto'',
          js ''time_spent'']),
      (js ''parent_key'', [js ''Chave pai'', js ''Parent Key'', js ''parent_key''])]"

text \<open>
  \<open>COLUMN_MAPPINGS[columnKey] || [columnKey]\<close>. The parser calls it with the twelve keys
  of the table only.
\<close>

definition possibleNamesOf :: "jsstring \<Rightarrow> jsstring list" where
  "possibleNamesOf columnKey =
     (case map_of COLUMN_MAPPINGS columnKey of Some names \<Rightarrow> names | None \<Rightarrow> [columnKey])"

fun findColumnLoop :: "CSVRow \<Rightarrow> jsstring list \<Rightarrow> jsstring option" where
  "findColumnLoop row [] = None"
| "findColumnLoop row (nm # names) =
     (case map_of row nm of
        Some v \<Rightarrow> if v \<noteq> [] then Some v else findColumnLoop row names
      | None \<Rightarrow> findColumnLoop row names)"

definition findColumn :: "CSVRow \<Rightarrow> jsstring \<Rightarrow> jsstring option" where
  "findColumn row columnKey = findColumnLoop row (possibleNamesOf columnKey)"

text \<open>
  The test of \<open>findAllColumnsValues\<close>: the key is the name, or matches the name (escaped,
  so taken literally) followed by an optional \<open>_\<close> and digits, from start to end. The
  underscore is 95.
\<close>

definition matchesName :: "jsstring \<Rightarrow> jsstring \<Rightarrow> bool" where
  "matchesName key nm =
     (key = nm \<or>
      (take (length nm) key = nm \<and>
       (case drop (length nm) key of
          [] \<Rightarrow> True
        | c # ds \<Rightarrow> c = 95 \<and> ds \<noteq> [] \<and> list_all isDigit ds)))"

definition findAllColumnsValues :: "CSVRow \<Rightarrow> jsstring \<Rightarrow> jsstring list" where
  "findAllColumnsValues row columnKey =
     (let possibleNames = possibleNamesOf columnKey;
          values = concat (map (\<lambda>(key, v).
                      concat (map (\<lambda>nm.
                        if matchesName key nm \<and> v \<noteq> [] \<and> trim v \<noteq> [] then [trim v] else [])
                      possibleNames))
                    row)
      in setToArray values)"

section \<open>Dates of the runtime\<close>

text \<open>
  The \<open>Date\<close> object of ECMAScript, as far as the parser uses it. A time value is an
  integer number of milliseconds since the epoch, at most \<open>8.64e15\<close> in magnitude;
  \<open>None\<close> is the time value \<open>NaN\<close> of an invalid date. The calendar is the
  proleptic Gregorian one of the language specification.
\<close>

definition msPerDay :: int where
  "msPerDay = 86400000"

definition maxTime :: int where
  "maxTime = 8640000000000000"

text \<open>\<open>Day(t)\<close>: the number of the day a time value falls on.\<close>

definition Day :: "int \<Rightarrow> int" where
  "Day t = t div msPerDay"

definition TimeClip :: "int \<Rightarrow> int option" where
  "TimeClip t = (if maxTime < \<bar>t\<bar> then None else Some t)"

definition DaysInYear :: "int \<Rightarrow> int" where
  "DaysInYear y =
     (if y mod 4 \<noteq> 0 then 365
      else if y mod 100 \<noteq> 0 then 366
      else if y mod 400 \<noteq> 0 then 365
      else 366)"

definition DayFromYear :: "int \<Rightarrow> int" where
  "DayFromYear y = 365 * (y - 1970) + (y - 1969) div 4 - (y - 1901) div 100 + (y - 1601) div 400"

text \<open>
  \<open>YearFromTime\<close> is specified as the largest year whose first day is not after the
  given day. It is computed from the mean length of a year and corrected by at most one
  (lemma \<open>YearFromDay_bounds\<close> proves the specification).
\<close>

definition YearFromDay :: "int \<Rightarrow> int" where
  "YearFromDay n =
     (let y = 1970 + (400 * n) div 146097 in
      if n < DayFromYear y then y - 1
      else if DayFromYear (y + 1) \<le> n then y + 1
      else y)"

text \<open>The number of days before each month, and before the end of the year.\<close>

definition monthStarts :: "int \<Rightarrow> int list" where
  "monthStarts leap =
     [0, 31, 59 + leap, 90 + leap, 120 + leap, 151 + leap, 181 + leap, 212 + leap,
      243 + leap, 273 + leap, 304 + leap, 334 + leap, 365 + leap]"

definition MonthFromDay :: "int \<Rightarrow> int \<Rightarrow> nat" where
  "MonthFromDay leap d =
     (if d < 31 then 0
      else if d < 59 + leap then 1
      else if d < 90 + leap then 2
      else if d < 120 + leap then 3
      else if d < 151 + leap then 4
      else if d < 181 + leap then 5
      else if d < 212 + leap then 6
      else if d < 243 + leap then 7
      else if d < 273 + leap then 8
      else if d < 304 + leap then 9
      else if d < 334 + leap then 10
      else 11)"

text \<open>
  \<open>MakeDay(year, month, date)\<close>: months beyond the year carry into the year, and the
  date is counted from the first of the month, whatever its size.
\<close>

definition MakeDay :: "int \<Rightarrow> int \<Rightarrow> int \<Rightarrow> int" where
  "MakeDay yr month dt =
     (let ym = yr + month div 12;
          mn = nat (month mod 12)
      in DayFromYear ym + monthStarts (DaysInYear ym - 365) ! mn + dt - 1)"

definition MakeTime :: "int \<Rightarrow> int \<Rightarrow> int \<Rightarrow> int \<Rightarrow> int" where
  "MakeTime hour minute sec ms = hour * 3600000 + minute * 60000 + sec * 1000 + ms"

definition MakeDate :: "int \<Rightarrow> int \<Rightarrow> int" where
  "MakeDate day time = day * msPerDay + time"

text \<open>
  \<open>new Date(year, month, date, hours, minutes)\<close>, whose arguments are local time. The
  offset of the local time zone is a parameter of the model: \<open>tza t\<close> is the offset, in
  milliseconds, that applies at the local time \<open>t\<close>. A year from 0 to 99 means 1900 plus
  that year.
\<close>

definition newDateLocal :: "(int \<Rightarrow> int) \<Rightarrow> int \<Rightarrow> int \<Rightarrow> int \<Rightarrow> int \<Rightarrow> int \<Rightarrow> int option" where
  "newDateLocal tza y m dt hours minutes =
     (let yr = (if 0 \<le> y \<and> y \<le> 99 then 1900 + y else y);
          finalDate = MakeDate (MakeDay yr m dt) (MakeTime hours minutes 0 0)
      in TimeClip (finalDate - tza finalDate))"

text \<open>
  \<open>date.toISOString().split('T')[0]\<close>: the date part of the UTC time, a year of four
  digits, or of six digits with a sign outside 0 to 9999. The minus sign is 45, the plus
  sign 43.
\<close>

definition pad2 :: "nat \<Rightarrow> jsstring" where
  "pad2 n = [48 + n div 10 mod 10, 48 + n mod 10]"

definition pad4 :: "nat \<Rightarrow> jsstring" where
  "pad4 n = [48 + n div 1000 mod 10, 48 + n div 100 mod 10, 48 + n div 10 mod 10, 48 + n mod 10]"

definition pad6 :: "nat \<Rightarrow> jsstring" where
  "pad6 n = [48 + n div 100000 mod 10, 48 + n div 10000 mod 10, 48 + n div 1000 mod 10,
             48 + n div 100 mod 10, 48 + n div 10 mod 10, 48 + n mod 10]"

definition yearText :: "int \<Rightarrow> jsstring" where
  "yearText y =
     (if 0 \<le> y \<and> y \<le> 9999 then pad4 (nat y)
      else (if y < 0 then 45 else 43) # pad6 (nat \<bar>y\<bar>))"

definition isoDateOf :: "int \<Rightarrow> jsstring" where
  "isoDateOf t =
     (let n = Day t;
          y = YearFromDay n;
          d = n - DayFromYear y;
          leap = DaysInYear y - 365;
          m = MonthFromDay leap d
      in yearText y @ [45] @ pad2 (m + 1) @ [45] @ pad2 (nat (d - monthStarts leap ! m + 1)))"

text \<open>
  \<open>new Date(string)\<close>. The language fixes the value for its own date-time format and
  leaves every other string to the implementation. The model computes the date-only
  form \<open>YYYY-MM-DD\<close> (and the form with a signed six-digit year) of a date that exists,
  as UTC midnight; every other string, and with it what an implementation does beyond
  the format, is the parameter \<open>native\<close>.
\<close>

definition isoDateFields :: "jsstring \<Rightarrow> (int \<times> nat \<times> nat) option" where
  "isoDateFields s =
     (if length s = 10 \<and> list_all isDigit (take 4 s) \<and> s ! 4 = 45
         \<and> list_all isDigit (take 2 (drop 5 s)) \<and> s ! 7 = 45 \<and> list_all isDigit (drop 8 s)
      then Some (int (digitsValue (take 4 s)), digitsValue (take 2 (drop 5 s)),
                 digitsValue (drop 8 s))
      else if length s = 13 \<and> (s ! 0 = 43 \<or> s ! 0 = 45) \<and> list_all isDigit (take 6 (drop 1 s))
         \<and> s ! 7 = 45 \<and> list_all isDigit (take 2 (drop 8 s)) \<and> s ! 10 = 45
         \<and> list_all isDigit (drop 11 s)
         \<and> (s ! 0 = 43 \<or> digitsValue (take 6 (drop 1 s)) \<noteq> 0)
      then Some ((if s ! 0 = 45 then - int (digitsValue (take 6 (drop 1 s)))
                  else int (digitsValue (take 6 (drop 1 s)))),
                 digitsValue (take 2 (drop 8 s)), digitsValue (drop 11 s))
      else None)"

definition isoDateOnly :: "jsstring \<Rightarrow> int option" where
  "isoDateOnly s =
     (case isoDateFields s of
        None \<Rightarrow> None
      | Some (y, m, d) \<Rightarrow>
          if 1 \<le> m \<and> m \<le> 12 \<and> 1 \<le> d
             \<and> int d \<le> monthStarts (DaysInYear y - 365) ! m - monthStarts (DaysInYear y - 365) ! (m - 1)
          then TimeClip (MakeDate (MakeDay y (int m - 1) (int d)) 0)
          else None)"

definition newDateString :: "(jsstring \<Rightarrow> int option) \<Rightarrow> jsstring \<Rightarrow> int option" where
  "newDateString native s =
     (case isoDateOnly s of
        Some t \<Rightarrow> Some t
      | None \<Rightarrow> (case native s of None \<Rightarrow> None | Some t \<Rightarrow> TimeClip t))"

section \<open>The field normalizers: dates and lead time\<close>

text \<open>
  The pieces of the anchored regular expressions of \<open>parseDate\<close>. Every group of digits
  is followed by a character that is no digit (or by the end), so a group matches the
  whole run of digits or the expression fails: no shorter match can succeed.
\<close>

definition takeDigits :: "nat \<Rightarrow> nat \<Rightarrow> jsstring \<Rightarrow> (jsstring \<times> jsstring) option" where
  "takeDigits lo hi s =
     (let ds = takeWhile isDigit s in
      if lo \<le> length ds \<and> length ds \<le> hi then Some (ds, dropWhile isDigit s) else None)"

definition expectChar :: "nat \<Rightarrow> jsstring \<Rightarrow> jsstring option" where
  "expectChar c s = (case s of [] \<Rightarrow> None | x # rest \<Rightarrow> if x = c then Some rest else None)"

definition takeSpaces1 :: "jsstring \<Rightarrow> jsstring option" where
  "takeSpaces1 s =
     (if takeWhile isWhiteSpace s = [] then None else Some (dropWhile isWhiteSpace s))"

definition isLetter :: "nat \<Rightarrow> bool" where
  "isLetter c = ((65 \<le> c \<and> c \<le> 90) \<or> (97 \<le> c \<and> c \<le> 122))"

definition takeLetters3 :: "jsstring \<Rightarrow> (jsstring \<times> jsstring) option" where
  "takeLetters3 s =
     (if 3 \<le> length s \<and> list_all isLetter (take 3 s) then Some (take 3 s, drop 3 s) else None)"

definition expectEnd :: "jsstring \<Rightarrow> unit option" where
  "expectEnd s = (if s = [] then Some () else None)"

text \<open>\<open>/^(\d{1,2})\/(\d{1,2})\/(\d{2})\s+(\d{1,2}):(\d{2})$/\<close>; the slash is 47, the colon 58.\<close>

definition numericShortMatch ::
    "jsstring \<Rightarrow> (jsstring \<times> jsstring \<times> jsstring \<times> jsstring \<times> jsstring) option" where
  "numericShortMatch s =
     do {
       (day, s1) \<leftarrow> takeDigits 1 2 s;
       s2 \<leftarrow> expectChar 47 s1;
       (month, s3) \<leftarrow> takeDigits 1 2 s2;
       s4 \<leftarrow> expectChar 47 s3;
       (year, s5) \<leftarrow> takeDigits 2 2 s4;
       s6 \<leftarrow> takeSpaces1 s5;
       (hours, s7) \<leftarrow> takeDigits 1 2 s6;
       s8 \<leftarrow> expectChar 58 s7;
       (minutes, s9) \<leftarrow> takeDigits 2 2 s8;
       _ \<leftarrow> expectEnd s9;
       Some (day, month, year, hours, minutes)
     }"

text \<open>\<open>/^(\d{1,2})\/([A-Za-z]{3})\/(\d{2,4})\s+(\d{1,2}):(\d{2})$/\<close>.\<close>

definition jiraMatch ::
    "jsstring \<Rightarrow> (jsstring \<times> jsstring \<times> jsstring \<times> jsstring \<times> jsstring) option" where
  "jiraMatch s =
     do {
       (day, s1) \<leftarrow> takeDigits 1 2 s;
       s2 \<leftarrow> expectChar 47 s1;
       (month, s3) \<leftarrow> takeLetters3 s2;
       s4 \<leftarrow> expectChar 47 s3;
       (year, s5) \<leftarrow> takeDigits 2 4 s4;
       s6 \<leftarrow> takeSpaces1 s5;
       (hours, s7) \<leftarrow> takeDigits 1 2 s6;
       s8 \<leftarrow> expectChar 58 s7;
       (minutes, s9) \<leftarrow> takeDigits 2 2 s8;
       _ \<leftarrow> expectEnd s9;
       Some (day, month, year, hours, minutes)
     }"

definition monthMap :: "(jsstring \<times> int) list" where
  "monthMap =
     [(js ''Jan'', 0), (js ''Fev'', 1), (js ''Feb'', 1), (js ''Mar'', 2), (js ''Abr'', 3),
      (js ''Apr'', 3), (js ''Mai'', 4), (js ''May'', 4), (js ''Jun'', 5), (js ''Jul'', 6),
      (js ''Ago'', 7), (js ''Aug'', 7), (js ''Set'', 8), (js ''Sep'', 8), (js ''Out'', 9),
      (js ''Oct'', 9), (js ''Nov'', 10), (js ''Dez'', 11), (js ''Dec'', 11)]"

text \<open>\<open>/^\d{4}-\d{2}-\d{2}/.test(dateStr)\<close>: a test of the first ten characters.\<close>

definition isoFormatTest :: "jsstring \<Rightarrow> bool" where
  "isoFormatTest s =
     (10 \<le> length s \<and> list_all isDigit (take 4 s) \<and> s ! 4 = 45
      \<and> list_all isDigit (take 2 (drop 5 s)) \<and> s ! 7 = 45
      \<and> list_all isDigit (take 2 (drop 8 s)))"

text \<open>\<open>/^(\d{1,2})\/(\d{1,2})\/(\d{4})$/\<close>.\<close>

definition slashMatch :: "jsstring \<Rightarrow> (jsstring \<times> jsstring \<times> jsstring) option" where
  "slashMatch s =
     do {
       (day, s1) \<leftarrow> takeDigits 1 2 s;
       s2 \<leftarrow> expectChar 47 s1;
       (month, s3) \<leftarrow> takeDigits 1 2 s2;
       s4 \<leftarrow> expectChar 47 s3;
       (year, s5) \<leftarrow> takeDigits 4 4 s4;
       _ \<leftarrow> expectEnd s5;
       Some (day, month, year)
     }"

text \<open>
  \<open>parseDate\<close>. Each of the five attempts builds a date and returns its ISO date part
  unless the time value is \<open>NaN\<close>; an attempt that does not return falls through to the
  next. Nothing in the \<open>try\<close> block throws (\<open>toISOString\<close> is called on valid dates
  only), so the \<open>catch\<close> branch is never taken.
\<close>

definition parseInt :: "jsstring \<Rightarrow> int" where
  "parseInt ds = int (digitsValue ds)"

definition parseDate ::
    "(int \<Rightarrow> int) \<Rightarrow> (jsstring \<Rightarrow> int option) \<Rightarrow> jsstring option \<Rightarrow> jsstring option" where
  "parseDate tza native dateStr =
     (case dateStr of
        None \<Rightarrow> None
      | Some s \<Rightarrow>
          if s = [] then None
          else
            (case (case numericShortMatch s of
                     None \<Rightarrow> None
                   | Some (day, month, year, hours, minutes) \<Rightarrow>
                       newDateLocal tza (2000 + parseInt year) (parseInt month - 1)
                         (parseInt day) (parseInt hours) (parseInt minutes)) of
               Some t \<Rightarrow> Some (isoDateOf t)
             | None \<Rightarrow>
            (case (case jiraMatch s of
                     None \<Rightarrow> None
                   | Some (day, month, year, hours, minutes) \<Rightarrow>
                       newDateLocal tza
                         (if length year = 2 then 2000 + parseInt year else parseInt year)
                         (case map_of monthMap month of Some m \<Rightarrow> m | None \<Rightarrow> 0)
                         (parseInt day) (parseInt hours) (parseInt minutes)) of
               Some t \<Rightarrow> Some (isoDateOf t)
             | None \<Rightarrow>
            (case (if isoFormatTest s then newDateString native s else None) of
               Some t \<Rightarrow> Some (isoDateOf t)
             | None \<Rightarrow>
            (case (case slashMatch s of
                     None \<Rightarrow> None
                   | Some (day, month, year) \<Rightarrow>
                       newDateLocal tza (parseInt year) (parseInt month - 1) (parseInt day) 0 0) of
               Some t \<Rightarrow> Some (isoDateOf t)
             | None \<Rightarrow>
            (case newDateString native s of
               Some t \<Rightarrow> Some (isoDateOf t)
             | None \<Rightarrow> None))))))"

text \<open>
  \<open>calculateLeadTime\<close>. \<open>Math.ceil(diffTime / 86400000)\<close> is the ceiling of the exact
  quotient: the time values are integers below \<open>2^53\<close>, and for the dates \<open>parseDate\<close>
  returns they are multiples of a day, so the division is exact.
\<close>

definition calculateLeadTime ::
    "(jsstring \<Rightarrow> int option) \<Rightarrow> jsstring option \<Rightarrow> jsstring option \<Rightarrow> int option" where
  "calculateLeadTime native createdDate resolvedDate =
     (if \<not> truthy createdDate \<or> \<not> truthy resolvedDate then None
      else
        (case (newDateString native (the createdDate), newDateString native (the resolvedDate)) of
           (Some created, Some resolved) \<Rightarrow>
             (let diffTime = resolved - created;
                  diffDays = - ((- diffTime) div msPerDay)
              in if diffDays \<ge> 0 then Some diffDays else None)
         | _ \<Rightarrow> None))"

section \<open>The field normalizers: time values\<close>

text \<open>
  A number of the language. A finite number is modelled by the exact rational it
  stands for: the rounding of the double-precision format, its overflow to infinity
  and the sign of zero are outside the model.
\<close>

datatype jsnumber = NaN | Finite rat | PosInfinity | NegInfinity

text \<open>
  \<open>parseFloat\<close>: leading white space is skipped, and the longest prefix that is a
  decimal literal is converted: a sign, then \<open>Infinity\<close> or digits with an optional
  fraction and an optional exponent. Whatever follows the prefix is ignored. The
  result is \<open>NaN\<close> when no prefix is a literal. The dot is 46, \<open>e\<close> and \<open>E\<close> are 101
  and 69.
\<close>

definition exponentOf :: "jsstring \<Rightarrow> int" where
  "exponentOf s =
     (case s of
        [] \<Rightarrow> 0
      | c # r \<Rightarrow>
          if c = 101 \<or> c = 69 then
            (case r of
               [] \<Rightarrow> 0
             | sg # r' \<Rightarrow>
                 if sg = 45 then (if takeWhile isDigit r' = [] then 0
                                  else - int (digitsValue (takeWhile isDigit r')))
                 else if sg = 43 then int (digitsValue (takeWhile isDigit r'))
                 else int (digitsValue (takeWhile isDigit r)))
          else 0)"

definition scale10 :: "rat \<Rightarrow> int \<Rightarrow> rat" where
  "scale10 x e = (if 0 \<le> e then x * 10 ^ nat e else x / 10 ^ nat (- e))"

definition unsignedLiteral :: "jsstring \<Rightarrow> rat option" where
  "unsignedLiteral u =
     (let ip = takeWhile isDigit u;
          r1 = dropWhile isDigit u;
          fp = (case r1 of [] \<Rightarrow> [] | c # r \<Rightarrow> if c = 46 then takeWhile isDigit r else []);
          r2 = (case r1 of [] \<Rightarrow> [] | c # r \<Rightarrow> if c = 46 then dropWhile isDigit r else r1)
      in if ip = [] \<and> fp = [] then None
         else Some (scale10 (of_nat (digitsValue ip) + of_nat (digitsValue fp) / 10 ^ length fp)
                            (exponentOf r2)))"

definition parseFloat :: "jsstring \<Rightarrow> jsnumber" where
  "parseFloat s =
     (let t = dropWhile isWhiteSpace s;
          neg = (case t of [] \<Rightarrow> False | c # r \<Rightarrow> c = 45);
          u = (case t of [] \<Rightarrow> [] | c # r \<Rightarrow> if c = 45 \<or> c = 43 then r else t)
      in if take 8 u = js ''Infinity'' then (if neg then NegInfinity else PosInfinity)
         else (case unsignedLiteral u of
                 None \<Rightarrow> NaN
               | Some q \<Rightarrow> Finite (if neg then - q else q)))"

text \<open>\<open>Math.round(x * 100) / 100\<close>; \<open>Math.round\<close> rounds a half upwards.\<close>

definition round2 :: "rat \<Rightarrow> rat" where
  "round2 x = of_int \<lfloor>x * 100 + 1 / 2\<rfloor> / 100"

text \<open>
  \<open>trimmed.match(/(\d+(?:\.\d+)?)\s*[dD]/)\<close> and its siblings for \<open>h\<close> and \<open>m\<close>:
  the first position from which the expression matches, and there the number it
  captures. At one position the match is determined: the digits, a fraction when a dot
  and a digit follow, white space, the unit letter.
\<close>

definition tokenAt :: "nat \<Rightarrow> nat \<Rightarrow> jsstring \<Rightarrow> jsstring option" where
  "tokenAt lower upper s =
     (let ip = takeWhile isDigit s;
          r1 = dropWhile isDigit s;
          hasFraction = (case r1 of [] \<Rightarrow> False | c # r \<Rightarrow> c = 46 \<and> takeWhile isDigit r \<noteq> []);
          num = (if hasFraction then ip @ [46] @ takeWhile isDigit (tl r1) else ip);
          r2 = (if hasFraction then dropWhile isDigit (tl r1) else r1)
      in if ip = [] then None
         else (case dropWhile isWhiteSpace r2 of
                 [] \<Rightarrow> None
               | c # r \<Rightarrow> if c = lower \<or> c = upper then Some num else None))"

fun searchToken :: "nat \<Rightarrow> nat \<Rightarrow> jsstring \<Rightarrow> jsstring option" where
  "searchToken lower upper [] = None"
| "searchToken lower upper (c # cs) =
     (case tokenAt lower upper (c # cs) of
        Some num \<Rightarrow> Some num
      | None \<Rightarrow> searchToken lower upper cs)"

text \<open>The value \<open>parseFloat\<close> gives for a captured number, which is finite.\<close>

definition capturedValue :: "jsstring \<Rightarrow> rat" where
  "capturedValue num = (case parseFloat num of Finite q \<Rightarrow> q | _ \<Rightarrow> 0)"

definition parseTimeValue :: "jsstring option \<Rightarrow> jsnumber option" where
  "parseTimeValue v =
     (if \<not> truthy v \<or> trim (the v) = [] then None
      else
        (let trimmed = trim (the v);
             numericOnly = parseFloat trimmed
         in case numericOnly of
              PosInfinity \<Rightarrow> Some PosInfinity
            | NegInfinity \<Rightarrow> Some NegInfinity
            | Finite q \<Rightarrow> if q > 1000 then Some (Finite (round2 (q / 3600))) else Some (Finite q)
            | NaN \<Rightarrow>
                (let t0 = 0;
                     t1 = (case searchToken 100 68 trimmed of
                             Some num \<Rightarrow> t0 + capturedValue num * 8 | None \<Rightarrow> t0);
                     t2 = (case searchToken 104 72 trimmed of
                             Some num \<Rightarrow> t1 + capturedValue num | None \<Rightarrow> t1);
                     totalHours = (case searchToken 109 77 trimmed of
                             Some num \<Rightarrow> t2 + capturedValue num / 60 | None \<Rightarrow> t2)
                 in if totalHours > 0 then Some (Finite (round2 totalHours)) else None)))"

section \<open>The field normalizers: system names and versions\<close>

text \<open>
  \<open>systemMappings[normalized] || normalized\<close> reads an object literal: for the name of
  a member of \<open>Object.prototype\<close> it yields that member, which is no string.
\<close>

datatype system_value = SystemName jsstring | PrototypeMember jsstring

definition systemMappings :: "(jsstring \<times> jsstring) list" where
  "systemMappings =
     [(js ''Tesouraria Nacional'', js ''Tesouraria''),
      (js ''Rebaixa de Pre'' @ [231] @ js ''os'', js ''Rebaixa de Pre'' @ [231] @ js ''o''),
      (js ''Automa'' @ [231, 227] @ js ''o CD'', js ''Sorter'')]"

definition normalizeSystemName :: "jsstring option \<Rightarrow> system_value option" where
  "normalizeSystemName sys =
     (if \<not> truthy sys then None
      else
        (let normalized = trim (the sys) in
         case map_of systemMappings normalized of
           Some canonical \<Rightarrow> Some (SystemName canonical)
         | None \<Rightarrow>
             if inheritedName normalized then Some (PrototypeMember normalized)
             else Some (SystemName normalized)))"

text \<open>\<open>summary.match(/^\[([^\]]+)\]/)\<close>; the brackets are 91 and 93.\<close>

definition extractSystemFromSummary :: "jsstring option \<Rightarrow> system_value option" where
  "extractSystemFromSummary summ =
     (if \<not> truthy summ then None
      else
        (case the summ of
           [] \<Rightarrow> None
         | c # r \<Rightarrow>
             if c = 91 \<and> takeWhile (\<lambda>x. x \<noteq> 93) r \<noteq> [] \<and> dropWhile (\<lambda>x. x \<noteq> 93) r \<noteq> []
             then normalizeSystemName (Some (trim (takeWhile (\<lambda>x. x \<noteq> 93) r)))
             else None))"

text \<open>
  \<open>version.match(/(\d+)/g)\<close>: the maximal runs of digits, from left to right.
  \<open>parseInt\<close> of a run is taken exactly (a double is exact up to \<open>2^53\<close>).
\<close>

fun digitRuns :: "jsstring \<Rightarrow> jsstring \<Rightarrow> jsstring list" where
  "digitRuns [] run = (if run = [] then [] else [run])"
| "digitRuns (c # cs) run =
     (if isDigit c then digitRuns cs (run @ [c])
      else (if run = [] then [] else [run]) @ digitRuns cs [])"

definition extractVersionNumber :: "jsstring \<Rightarrow> int list" where
  "extractVersionNumber version =
     (let numbers = digitRuns version [] in
      if numbers = [] then [0] else map parseInt numbers)"

text \<open>The loop of \<open>compareVersions\<close>; \<open>numsA[i] || 0\<close> is 0 beyond the end.\<close>

function compareLoop :: "nat \<Rightarrow> nat \<Rightarrow> int list \<Rightarrow> int list \<Rightarrow> int" where
  "compareLoop i maxLen numsA numsB =
     (if i < maxLen then
        (let numA = (if i < length numsA then numsA ! i else 0);
             numB = (if i < length numsB then numsB ! i else 0)
         in if numA \<noteq> numB then numA - numB
            else compareLoop (i + 1) maxLen numsA numsB)
      else 0)"
  by pat_completeness auto
termination
  by (relation "measure (\<lambda>(i, maxLen, numsA, numsB). maxLen - i)") auto

declare compareLoop.simps [simp del]

definition compareVersions :: "jsstring \<Rightarrow> jsstring \<Rightarrow> int" where
  "compareVersions a b =
     (let numsA = extractVersionNumber a;
          numsB = extractVersionNumber b;
          maxLen = max (length numsA) (length numsB)
      in compareLoop 0 maxLen numsA numsB)"

text \<open>\<open>versions.reduce\<close> without an initial value starts from the first element.\<close>

fun getHighestVersion :: "jsstring list \<Rightarrow> jsstring option" where
  "getHighestVersion [] = None"
| "getHighestVersion [v] = Some v"
| "getHighestVersion (v # vs) =
     Some (foldl (\<lambda>highest current. if compareVersions current highest > 0 then current else highest)
                 v vs)"



section \<open>The issue mapper\<close>

record ParsedIssue =
  issue_key :: jsstring
  summary :: "jsstring option"
  issue_type :: "jsstring option"
  status :: "jsstring option"
  project :: "jsstring option"
  system :: "system_value option"
  fix_version :: "jsstring option"
  created_date :: "jsstring option"
  resolved_date :: "jsstring option"
  lead_time_days :: "int option"
  original_estimate :: "jsnumber option"
  time_spent :: "jsnumber option"
  parent_key :: "jsstring option"

record map_result =
  issues :: "ParsedIssue list"
  errors :: "jsstring list"

text \<open>
  The issue built from a row whose key was found (lines 386 to 426). The two
  \<open>console.warn\<close> calls write to the console only and are not part of the result.
\<close>

definition mapRow ::
    "(int \<Rightarrow> int) \<Rightarrow> (jsstring \<Rightarrow> int option) \<Rightarrow> CSVRow \<Rightarrow> jsstring \<Rightarrow> ParsedIssue" where
  "mapRow tza native row issueKey =
     (let createdDateRaw = findColumn row (js ''created_date'');
          resolvedDateRaw = findColumn row (js ''resolved_date'');
          createdDate = parseDate tza native createdDateRaw;
          resolvedDate = parseDate tza native resolvedDateRaw;
          fixVersions = findAllColumnsValues row (js ''fix_version'');
          fixVersion = getHighestVersion (filter (\<lambda>v. v \<noteq> []) fixVersions);
          summ = findColumn row (js ''summary'');
          sys = extractSystemFromSummary summ
      in \<lparr>issue_key = trim issueKey,
          summary = summ,
          issue_type = findColumn row (js ''issue_type''),
          status = findColumn row (js ''status''),
          project = findColumn row (js ''project''),
          system = sys,
          fix_version = fixVersion,
          created_date = createdDate,
          resolved_date = resolvedDate,
          lead_time_days = calculateLeadTime native createdDate resolvedDate,
          original_estimate = parseTimeValue (findColumn row (js ''original_estimate'')),
          time_spent = parseTimeValue (findColumn row (js ''time_spent'')),
          parent_key = findColumn row (js ''parent_key'')\<rparr>)"

text \<open>The message of line 382; the letter 227 is the a with tilde.\<close>

definition keyMissingError :: "nat \<Rightarrow> jsstring" where
  "keyMissingError i =
     js ''Linha '' @ showNat (i + 2) @ js '': Chave do item n'' @ [227] @ js ''o encontrada''"

text \<open>The loop of \<open>mapCSVToIssues\<close> from index \<open>i\<close>, with its two accumulators.\<close>

fun mapLoop ::
    "(int \<Rightarrow> int) \<Rightarrow> (jsstring \<Rightarrow> int option) \<Rightarrow> nat \<Rightarrow> CSVRow list
       \<Rightarrow> ParsedIssue list \<Rightarrow> jsstring list \<Rightarrow> map_result" where
  "mapLoop tza native i [] issuesAcc errorsAcc = \<lparr>issues = issuesAcc, errors = errorsAcc\<rparr>"
| "mapLoop tza native i (row # rows) issuesAcc errorsAcc =
     (let issueKey = findColumn row (js ''issue_key'') in
      if \<not> truthy issueKey
      then mapLoop tza native (i + 1) rows issuesAcc (errorsAcc @ [keyMissingError i])
      else mapLoop tza native (i + 1) rows
             (issuesAcc @ [mapRow tza native row (the issueKey)]) errorsAcc)"

definition mapCSVToIssues ::
    "(int \<Rightarrow> int) \<Rightarrow> (jsstring \<Rightarrow> int option) \<Rightarrow> CSVRow list \<Rightarrow> map_result" where
  "mapCSVToIssues tza native rows = mapLoop tza native 0 rows [] []"

section \<open>Example data\<close>

text \<open>
  The scenario of the specification: stored releases \<open>V1\<close> (null description), \<open>V2\<close>
  (\<open>Shipped\<close>) and \<open>V3\<close> (empty description); issues on each of them and one with no
  \<open>fix_version\<close>.
\<close>

definition scenario_versions :: "version_row list" where
  "scenario_versions =
     [\<lparr>name = js ''V1'', description = None\<rparr>,
      \<lparr>name = js ''V2'', description = Some (js ''Shipped'')\<rparr>,
      \<lparr>name = js ''V3'', description = Some []\<rparr>]"

definition scenario_issues :: "Issue list" where
  "scenario_issues =
     [\<lparr>Issue.fix_version = Some (js ''V1'')\<rparr>, \<lparr>Issue.fix_version = Some (js ''V2'')\<rparr>,
      \<lparr>Issue.fix_version = Some (js ''V3'')\<rparr>, \<lparr>Issue.fix_version = None\<rparr>]"

text \<open>A row with a key, a creation date and a resolution date four days later.\<close>

definition lead_row :: CSVRow where
  "lead_row =
     [(js ''Key'', js ''K-1''), (js ''Created'', js ''2024-01-01''),
      (js ''Resolved'', js ''2024-01-05'')]"


text \<open>
  Two texts: a header and one data line with a repeated column; a header and a data
  line that consists of an empty quoted field. The line feed is 10.
\<close>

definition csv_text :: jsstring where
  "csv_text = js ''Key,Fix,Fix'' @ [10] @ js ''K1,1.0,1.2''"

definition csv_text_empty_field :: jsstring where
  "csv_text_empty_field = js ''a'' @ [10] @ [34, 34]"

section \<open>Properties of the lifecycle filter\<close>

lemma trim_Nil: "trim [] = []"
  by (simp add: trim_def)

lemma setToArray_aux:
  "set (foldl (\<lambda>acc x. if x \<in> set acc then acc else acc @ [x]) a xs) = set a \<union> set xs"
  by (induction xs arbitrary: a) auto

lemma set_setToArray: "set (setToArray xs) = set xs"
  by (simp add: setToArray_def setToArray_aux)

lemma uniqueVersionsOf_nonempty: "[] \<notin> set (uniqueVersionsOf issueList)"
  by (auto simp: uniqueVersionsOf_def set_setToArray truthy_def split: option.splits)

lemma uniqueVersionsOf_member:
  "Issue.fix_version i = Some v \<Longrightarrow> v \<noteq> [] \<Longrightarrow> i \<in> set issueList
     \<Longrightarrow> v \<in> set (uniqueVersionsOf issueList)"
  by (force simp: uniqueVersionsOf_def set_setToArray truthy_def split: option.splits)

lemma uniqueVersionsOf_empty_iff:
  "uniqueVersionsOf issueList = [] \<longleftrightarrow> (\<forall>i \<in> set issueList. \<not> truthy (Issue.fix_version i))"
proof -
  have "uniqueVersionsOf issueList = [] \<longleftrightarrow> set (uniqueVersionsOf issueList) = {}"
    by simp
  also have "\<dots> \<longleftrightarrow> (\<forall>i \<in> set issueList. \<not> truthy (Issue.fix_version i))"
    by (auto simp: uniqueVersionsOf_def set_setToArray)
  finally show ?thesis .
qed


lemma isOpenDescription_iff:
  "isOpenDescription descr \<longleftrightarrow>
     (case descr of None \<Rightarrow> True | Some None \<Rightarrow> True | Some (Some d) \<Rightarrow> trim d = [])"
  by (auto simp: isOpenDescription_def trim_Nil split: option.splits)

text \<open>
  C1. When the store read returns, a release name referenced by the issues is reported
  open exactly when the lookup has no entry for it, or a null description, or a
  description that trims to the empty string (anything else, such as \<open>-\<close>, is closed);
  and the filtered issues are the input issues, in order, without exactly those whose
  \<open>fix_version\<close> is one of the open names: an issue with no \<open>fix_version\<close> is kept.
\<close>

theorem C1_open_iff_blank_and_closed_only_filter:
  assumes "fetch (uniqueVersionsOf issueList) = Returns versionsData"
  shows "(\<forall>n \<in> set (uniqueVersionsOf issueList).
            n \<in> set (openVersions (getOpenVersionsAndFilterIssues fetch issueList)) \<longleftrightarrow>
              (case versionsMapOf versionsData n of
                 None \<Rightarrow> True
               | Some None \<Rightarrow> True
               | Some (Some d) \<Rightarrow> trim d = []))
       \<and> set (openVersions (getOpenVersionsAndFilterIssues fetch issueList))
            \<subseteq> set (uniqueVersionsOf issueList)
       \<and> filteredIssues (getOpenVersionsAndFilterIssues fetch issueList) =
           filter (\<lambda>i. case Issue.fix_version i of
                          None \<Rightarrow> True
                        | Some v \<Rightarrow> v \<notin> set (openVersions (getOpenVersionsAndFilterIssues fetch issueList)))
                  issueList"
proof (cases "uniqueVersionsOf issueList = []")
  case True
  then have r: "getOpenVersionsAndFilterIssues fetch issueList
                  = \<lparr>filteredIssues = issueList, openVersions = []\<rparr>"
    by (simp add: getOpenVersionsAndFilterIssues_def)
  have "(case x of None \<Rightarrow> True | Some (v::jsstring) \<Rightarrow> True) = True" for x
    by (simp split: option.splits)
  then show ?thesis unfolding r using True by (simp cong: option.case_cong)
next
  case False
  define openVs where
    "openVs = filter (\<lambda>n. isOpenDescription (versionsMapOf versionsData n)) (uniqueVersionsOf issueList)"
  define keep where
    "keep = (\<lambda>issue::'a Issue_scheme. \<not> truthy (Issue.fix_version issue)
               \<or> the (Issue.fix_version issue) \<notin> set openVs)"
  have r: "getOpenVersionsAndFilterIssues fetch issueList
             = \<lparr>filteredIssues = filter keep issueList, openVersions = openVs\<rparr>"
    using False assms
    by (auto simp: getOpenVersionsAndFilterIssues_def Let_def openVs_def keep_def
             intro!: filter_cong)
  have noempty: "[] \<notin> set openVs"
    using uniqueVersionsOf_nonempty[of issueList] by (auto simp: openVs_def)
  have keep_eq: "keep = (\<lambda>i. case Issue.fix_version i of None \<Rightarrow> True | Some v \<Rightarrow> v \<notin> set openVs)"
    using noempty by (auto simp: keep_def truthy_def fun_eq_iff split: option.splits)
  have cls: "\<forall>n \<in> set (uniqueVersionsOf issueList). n \<in> set openVs \<longleftrightarrow>
               (case versionsMapOf versionsData n of
                  None \<Rightarrow> True | Some None \<Rightarrow> True | Some (Some d) \<Rightarrow> trim d = [])"
    by (simp add: openVs_def isOpenDescription_iff)
  have sub: "set openVs \<subseteq> set (uniqueVersionsOf issueList)"
    by (auto simp: openVs_def)
  show ?thesis
    unfolding r using cls sub keep_eq by (simp cong: option.case_cong)
qed

text \<open>
  C10. When the store read throws, or no issue has a (non-empty) \<open>fix_version\<close>, the
  result is the input list itself and no open version: nothing is filtered.
\<close>

theorem C10_error_path_returns_input_unchanged:
  assumes "fetch (uniqueVersionsOf issueList) = Throws
           \<or> (\<forall>i \<in> set issueList. Issue.fix_version i = None \<or> Issue.fix_version i = Some [])"
  shows "getOpenVersionsAndFilterIssues fetch issueList
           = \<lparr>filteredIssues = issueList, openVersions = []\<rparr>"
proof (cases "uniqueVersionsOf issueList = []")
  case True
  then show ?thesis by (simp add: getOpenVersionsAndFilterIssues_def)
next
  case False
  then obtain i where "i \<in> set issueList" "truthy (Issue.fix_version i)"
    by (auto simp: uniqueVersionsOf_empty_iff)
  then have "\<not> (\<forall>i \<in> set issueList. Issue.fix_version i = None \<or> Issue.fix_version i = Some [])"
    by (auto simp: truthy_def split: option.splits)
  with assms have "fetch (uniqueVersionsOf issueList) = Throws" by blast
  with False show ?thesis by (simp add: getOpenVersionsAndFilterIssues_def)
qed


lemma scenario_result:
  "getOpenVersionsAndFilterIssues (\<lambda>names. Returns (Some scenario_versions)) scenario_issues
     = \<lparr>filteredIssues = [\<lparr>Issue.fix_version = Some (js ''V2'')\<rparr>, \<lparr>Issue.fix_version = None\<rparr>],
        openVersions = [js ''V1'', js ''V3'']\<rparr>"
  by (simp add: getOpenVersionsAndFilterIssues_def uniqueVersionsOf_def setToArray_def
        scenario_issues_def scenario_versions_def versionsMapOf_def newMap_def truthy_def
        isOpenDescription_def trim_def isWhiteSpace_def js_def)

theorem C1_witness:
  "(\<lambda>names. Returns (Some scenario_versions)) (uniqueVersionsOf scenario_issues)
      = Returns (Some scenario_versions)
   \<and> js ''V1'' \<in> set (uniqueVersionsOf scenario_issues)
   \<and> js ''V1'' \<in> set (openVersions (getOpenVersionsAndFilterIssues
                          (\<lambda>names. Returns (Some scenario_versions)) scenario_issues))
   \<and> js ''V2'' \<in> set (uniqueVersionsOf scenario_issues)
   \<and> js ''V2'' \<notin> set (openVersions (getOpenVersionsAndFilterIssues
                          (\<lambda>names. Returns (Some scenario_versions)) scenario_issues))
   \<and> filteredIssues (getOpenVersionsAndFilterIssues
                        (\<lambda>names. Returns (Some scenario_versions)) scenario_issues) =
       filter (\<lambda>i. case Issue.fix_version i of
                      None \<Rightarrow> True
                    | Some v \<Rightarrow> v \<notin> set (openVersions (getOpenVersionsAndFilterIssues
                                  (\<lambda>names. Returns (Some scenario_versions)) scenario_issues)))
              scenario_issues"
proof -
  have h: "(\<lambda>names. Returns (Some scenario_versions)) (uniqueVersionsOf scenario_issues)
             = Returns (Some scenario_versions)"
    by simp
  have m1: "js ''V1'' \<in> set (uniqueVersionsOf scenario_issues)"
    and m2: "js ''V2'' \<in> set (uniqueVersionsOf scenario_issues)"
    by (simp_all add: uniqueVersionsOf_def set_setToArray scenario_issues_def truthy_def js_def)
  have l1: "versionsMapOf (Some scenario_versions) (js ''V1'') = Some None"
    and l2: "versionsMapOf (Some scenario_versions) (js ''V2'') = Some (Some (js ''Shipped''))"
    by (simp_all add: versionsMapOf_def newMap_def scenario_versions_def js_def)
  have t2: "trim (js ''Shipped'') \<noteq> []"
    by (simp add: trim_def isWhiteSpace_def js_def)
  note c = C1_open_iff_blank_and_closed_only_filter[OF h]
  from c m1 l1 have o1: "js ''V1'' \<in> set (openVersions (getOpenVersionsAndFilterIssues
                          (\<lambda>names. Returns (Some scenario_versions)) scenario_issues))"
    by force
  from c m2 l2 t2 have o2: "js ''V2'' \<notin> set (openVersions (getOpenVersionsAndFilterIssues
                          (\<lambda>names. Returns (Some scenario_versions)) scenario_issues))"
    by force
  from c h m1 m2 o1 o2 show ?thesis
    by blast
qed

theorem C10_witness:
  "((\<lambda>names. Throws) (uniqueVersionsOf scenario_issues) = Throws
      \<or> (\<forall>i \<in> set scenario_issues. Issue.fix_version i = None \<or> Issue.fix_version i = Some []))
   \<and> getOpenVersionsAndFilterIssues (\<lambda>names. Throws) scenario_issues
        = \<lparr>filteredIssues = scenario_issues, openVersions = []\<rparr>"
proof -
  have h: "(\<lambda>names. Throws) (uniqueVersionsOf scenario_issues) = Throws
             \<or> (\<forall>i \<in> set scenario_issues. Issue.fix_version i = None \<or> Issue.fix_version i = Some [])"
    by simp
  from C10_error_path_returns_input_unchanged[OF h] h show ?thesis
    by blast
qed

text \<open>
  C2. The two classifications differ. A stored release whose description is null is open
  for \<open>getOpenVersionsAndFilterIssues\<close> and not open (it is listed as closed) for
  \<open>debugVersions\<close>; a release described by \<open>-\<close> is closed for the former and open for
  the latter. On the scenario above the former reports \<open>V1\<close> and \<open>V3\<close> open, the
  latter no release at all.
\<close>

theorem C2_debugVersions_classifies_differently:
  "isOpenDescription (Some (description \<lparr>name = js ''V1'', description = None\<rparr>))
   \<and> \<not> debugIsOpen \<lparr>name = js ''V1'', description = None\<rparr>
   \<and> debugIsClosed \<lparr>name = js ''V1'', description = None\<rparr>
   \<and> \<not> isOpenDescription (Some (description \<lparr>name = js ''V4'', description = Some (js ''-'')\<rparr>))
   \<and> debugIsOpen \<lparr>name = js ''V4'', description = Some (js ''-'')\<rparr>
   \<and> \<not> debugIsClosed \<lparr>name = js ''V4'', description = Some (js ''-'')\<rparr>
   \<and> openVersions (getOpenVersionsAndFilterIssues
                       (\<lambda>names. Returns (Some scenario_versions)) scenario_issues)
       = [js ''V1'', js ''V3'']
   \<and> debugOpenVersions scenario_versions = []
   \<and> debugClosedVersions scenario_versions = scenario_versions"
proof -
  have "debugOpenVersions scenario_versions = []"
    and "debugClosedVersions scenario_versions = scenario_versions"
    by (simp_all add: debugOpenVersions_def debugClosedVersions_def debugIsOpen_def
          debugIsClosed_def scenario_versions_def truthy_def trim_def isWhiteSpace_def js_def)
  then show ?thesis
    by (simp add: scenario_result isOpenDescription_def debugIsOpen_def debugIsClosed_def
          truthy_def trim_def isWhiteSpace_def js_def)
qed

theorem C2_witness:
  "isOpenDescription (Some None) \<and> debugIsClosed \<lparr>name = js ''V1'', description = None\<rparr>"
  using C2_debugVersions_classifies_differently by simp

section \<open>Properties of the calendar\<close>

lemma div_succ:
  fixes x k :: int
  assumes "0 < k"
  shows "(x + 1) div k = x div k + (if (x + 1) mod k = 0 then 1 else 0)"
proof -
  define q where "q = x div k"
  define r where "r = x mod k"
  have x: "x = k * q + r" and r0: "0 \<le> r" and rk: "r < k"
    using assms by (simp_all add: q_def r_def)
  show ?thesis
  proof (cases "r + 1 = k")
    case True
    then have e: "x + 1 = k * (q + 1) + 0" using x by (simp add: algebra_simps)
    have "(x + 1) div k = q + 1" using assms by (intro int_div_pos_eq[OF e]) simp_all
    moreover have "(x + 1) mod k = 0" using assms by (intro int_mod_pos_eq[OF e]) simp_all
    ultimately show ?thesis by (simp add: q_def)
  next
    case False
    then have lt: "r + 1 < k" using rk by simp
    have e: "x + 1 = k * q + (r + 1)" using x by simp
    have "(x + 1) div k = q" using r0 lt by (intro int_div_pos_eq[OF e]) simp_all
    moreover have "(x + 1) mod k = r + 1" using r0 lt by (intro int_mod_pos_eq[OF e]) simp_all
    ultimately show ?thesis using r0 by (simp add: q_def)
  qed
qed

lemma mod_shift_4: "((y::int) - 1968) mod 4 = 0 \<longleftrightarrow> y mod 4 = 0"
  by presburger
lemma mod_shift_100: "((y::int) - 1900) mod 100 = 0 \<longleftrightarrow> y mod 100 = 0"
  by presburger
lemma mod_shift_400: "((y::int) - 1600) mod 400  = 0 \<longleftrightarrow> y mod 400 = 0"
  by presburger
lemma mod_100_4: "(y::int) mod 100 = 0 \<Longrightarrow> y mod 4 = 0"
  by presburger
lemma mod_400_100: "(y::int) mod 400 = 0 \<Longrightarrow> y mod 100 = 0"
  by presburger

lemma DayFromYear_Suc: "DayFromYear (y + 1) = DayFromYear y + DaysInYear y"
proof -
  have a: "(y + 1 - 1969) div 4 = (y - 1969) div 4 + (if y mod 4 = 0 then 1 else 0)"
    using div_succ[of 4 "y - 1969"] mod_shift_4[of y] by (simp add: algebra_simps)
  have b: "(y + 1 - 1901) div 100 = (y - 1901) div 100 + (if y mod 100 = 0 then 1 else 0)"
    using div_succ[of 100 "y - 1901"] mod_shift_100[of y] by (simp add: algebra_simps)
  have c: "(y + 1 - 1601) div 400 = (y - 1601) div 400 + (if y mod 400 = 0 then 1 else 0)"
    using div_succ[of 400 "y - 1601"] mod_shift_400[of y] by (simp add: algebra_simps)
  show ?thesis
    unfolding DayFromYear_def DaysInYear_def a b c
    using mod_100_4[of y] mod_400_100[of y] by auto
qed

lemma DaysInYear_cases: "DaysInYear y = 365 \<or> DaysInYear y = 366"
  by (simp add: DaysInYear_def)

lemma div_lower: fixes x k :: int assumes "0 < k" shows "k * (x div k) \<le> x"
proof -
  have "x = k * (x div k) + x mod k" by simp
  moreover have "0 \<le> x mod k" using assms by simp
  ultimately show ?thesis by linarith
qed

lemma div_upper: fixes x k :: int assumes "0 < k" shows "x < k * (x div k) + k"
proof -
  have "x = k * (x div k) + x mod k" by simp
  moreover have "x mod k < k" using assms by simp
  ultimately show ?thesis by linarith
qed

lemma DayFromYear_linear:
  "146097 * (y - 1970) - 607 < 400 * DayFromYear y"
  "400 * DayFromYear y < 146097 * (y - 1970) + 593"
proof -
  define a where "a = (y - 1969) div 4"
  define b where "b = (y - 1901) div 100"
  define c where "c = (y - 1601) div 400"
  have a1: "4 * a \<le> y - 1969" and a2: "y - 1969 < 4 * a + 4"
    unfolding a_def using div_lower[of 4 "y - 1969"] div_upper[of 4 "y - 1969"] by simp_all
  have b1: "100 * b \<le> y - 1901" and b2: "y - 1901 < 100 * b + 100"
    unfolding b_def using div_lower[of 100 "y - 1901"] div_upper[of 100 "y - 1901"] by simp_all
  have c1: "400 * c \<le> y - 1601" and c2: "y - 1601 < 400 * c + 400"
    unfolding c_def using div_lower[of 400 "y - 1601"] div_upper[of 400 "y - 1601"] by simp_all
  have D: "DayFromYear y = 365 * (y - 1970) + a - b + c"
    by (simp add: DayFromYear_def a_def b_def c_def)
  show "146097 * (y - 1970) - 607 < 400 * DayFromYear y"
    unfolding D using a2 b1 c2 by (simp add: algebra_simps)
  show "400 * DayFromYear y < 146097 * (y - 1970) + 593"
    unfolding D using a1 b2 c1 by (simp add: algebra_simps)
qed

lemma YearFromDay_bounds:
  "DayFromYear (YearFromDay n) \<le> n \<and> n < DayFromYear (YearFromDay n + 1)"
proof -
  define y where "y = 1970 + (400 * n) div 146097"
  have y1: "146097 * (y - 1970) \<le> 400 * n" and y2: "400 * n < 146097 * (y - 1970) + 146097"
    unfolding y_def using div_lower[of 146097 "400 * n"] div_upper[of 146097 "400 * n"] by simp_all
  have Y: "YearFromDay n = (if n < DayFromYear y then y - 1
                            else if DayFromYear (y + 1) \<le> n then y + 1 else y)"
    by (simp add: YearFromDay_def y_def Let_def)
  show ?thesis
  proof (cases "n < DayFromYear y")
    case True
    have "400 * DayFromYear (y - 1) < 146097 * (y - 1 - 1970) + 593"
      by (rule DayFromYear_linear)
    with y1 have "DayFromYear (y - 1) \<le> n" by (simp add: algebra_simps)
    with True Y show ?thesis by simp
  next
    case False
    show ?thesis
    proof (cases "DayFromYear (y + 1) \<le> n")
      case True
      have "146097 * (y + 2 - 1970) - 607 < 400 * DayFromYear (y + 2)"
        by (rule DayFromYear_linear)
      with y2 have "n < DayFromYear (y + 2)" by (simp add: algebra_simps)
      then have "n < DayFromYear (y + 1 + 1)" by (simp add: add.commute)
      then show ?thesis using True False Y by simp
    next
      case F2: False
      with False Y show ?thesis by simp
    qed
  qed
qed

lemma DayFromYear_mono_aux: "DayFromYear y \<le> DayFromYear (y + int k)"
proof (induction k)
  case 0
  then show ?case by simp
next
  case (Suc k)
  have "DayFromYear (y + int (Suc k)) = DayFromYear (y + int k + 1)"
    by (simp add: algebra_simps)
  also have "\<dots> = DayFromYear (y + int k) + DaysInYear (y + int k)"
    by (rule DayFromYear_Suc)
  finally show ?case
    using Suc DaysInYear_cases[of "y + int k"] by auto
qed

lemma DayFromYear_mono: "a \<le> b \<Longrightarrow> DayFromYear a \<le> DayFromYear b"
  using DayFromYear_mono_aux[of a "nat (b - a)"] by simp

lemma YearFromDay_unique:
  assumes "DayFromYear y \<le> n" "n < DayFromYear (y + 1)"
  shows "YearFromDay n = y"
proof (rule ccontr)
  assume ne: "YearFromDay n \<noteq> y"
  note b = YearFromDay_bounds[of n]
  show False
  proof (cases "YearFromDay n < y")
    case True
    then have "DayFromYear (YearFromDay n + 1) \<le> DayFromYear y"
      by (intro DayFromYear_mono) simp
    with b assms show False by simp
  next
    case False
    with ne have "DayFromYear (y + 1) \<le> DayFromYear (YearFromDay n)"
      by (intro DayFromYear_mono) simp
    with b assms show False by simp
  qed
qed

lemma MonthFromDay_bounds:
  assumes "0 \<le> d" "d < 365 + leap" "leap = 0 \<or> leap = 1"
  shows "MonthFromDay leap d \<le> 11
         \<and> monthStarts leap ! MonthFromDay leap d \<le> d
         \<and> d < monthStarts leap ! (MonthFromDay leap d + 1)"
  using assms by (auto simp: MonthFromDay_def monthStarts_def)

lemma mod10_le: "(x::nat) mod 10 \<le> 9"
  using mod_less_divisor[of 10 x] by linarith

lemma digit_step: "(x::nat) div 10 ^ k = 10 * (x div 10 ^ Suc k) + x div 10 ^ k mod 10"
proof -
  have "x div 10 ^ Suc k = x div (10 ^ k * 10)"
    by (simp add: mult.commute)
  also have "\<dots> = (x div 10 ^ k) div 10"
    by (rule div_mult2_eq)
  finally have "x div 10 ^ Suc k = (x div 10 ^ k) div 10" .
  then show ?thesis by simp
qed

lemma digitsValue_pad2: "n < 100 \<Longrightarrow> digitsValue (pad2 n) = n"
  by (simp add: digitsValue_def pad2_def)

lemma digitsValue_pad4:
  assumes "n < 10000"
  shows "digitsValue (pad4 n) = n"
proof -
  have e0: "n = 10 * (n div 10) + n mod 10" by simp
  have e1: "n div 10 = 10 * (n div 100) + n div 10 mod 10"
    using digit_step[of n 1] by simp
  have e2: "n div 100 = 10 * (n div 1000) + n div 100 mod 10"
    using digit_step[of n 2] by simp
  have e3: "n div 1000 mod 10 = n div 1000"
    using assms by simp
  have "digitsValue (pad4 n)
          = 1000 * (n div 1000 mod 10) + 100 * (n div 100 mod 10) + 10 * (n div 10 mod 10) + n mod 10"
    by (simp add: digitsValue_def pad4_def)
  with e0 e1 e2 e3 show ?thesis by linarith
qed

lemma digitsValue_pad6:
  assumes "n < 1000000"
  shows "digitsValue (pad6 n) = n"
proof -
  have e0: "n = 10 * (n div 10) + n mod 10" by simp
  have e1: "n div 10 = 10 * (n div 100) + n div 10 mod 10"
    using digit_step[of n 1] by simp
  have e2: "n div 100 = 10 * (n div 1000) + n div 100 mod 10"
    using digit_step[of n 2] by simp
  have e3: "n div 1000 = 10 * (n div 10000) + n div 1000 mod 10"
    using digit_step[of n 3] by simp
  have e4: "n div 10000 = 10 * (n div 100000) + n div 10000 mod 10"
    using digit_step[of n 4] by simp
  have e5: "n div 100000 mod 10 = n div 100000"
    using assms by simp
  have "digitsValue (pad6 n)
          = 100000 * (n div 100000 mod 10) + 10000 * (n div 10000 mod 10)
            + 1000 * (n div 1000 mod 10) + 100 * (n div 100 mod 10)
            + 10 * (n div 10 mod 10) + n mod 10"
    by (simp add: digitsValue_def pad6_def)
  with e0 e1 e2 e3 e4 e5 show ?thesis by linarith
qed

lemma digits_pad2: "list_all isDigit (pad2 n)"
  by (simp add: pad2_def isDigit_def mod10_le)

lemma digits_pad4: "list_all isDigit (pad4 n)"
  by (simp add: pad4_def isDigit_def mod10_le)

lemma digits_pad6: "list_all isDigit (pad6 n)"
  by (simp add: pad6_def isDigit_def mod10_le)

lemma length_pads [simp]: "length (pad2 n) = 2" "length (pad4 n) = 4" "length (pad6 n) = 6"
  by (simp_all add: pad2_def pad4_def pad6_def)

lemma isoDateFields_short:
  "isoDateFields (pad4 y @ [45] @ pad2 m @ [45] @ pad2 d)
     = Some (int (digitsValue (pad4 y)), digitsValue (pad2 m), digitsValue (pad2 d))"
  by (simp add: isoDateFields_def nth_append digits_pad2 digits_pad4)

lemma isoDateFields_long:
  assumes "sg = 43 \<or> (sg = 45 \<and> digitsValue (pad6 y) \<noteq> 0)"
  shows "isoDateFields (sg # pad6 y @ [45] @ pad2 m @ [45] @ pad2 d)
     = Some ((if sg = 45 then - int (digitsValue (pad6 y)) else int (digitsValue (pad6 y))),
             digitsValue (pad2 m), digitsValue (pad2 d))"
  using assms by (auto simp: isoDateFields_def nth_append digits_pad2 digits_pad6)

lemma isoDateFields_yearText:
  assumes "- 999999 \<le> y" "y \<le> 999999" "m < 100" "d < 100"
  shows "isoDateFields (yearText y @ [45] @ pad2 m @ [45] @ pad2 d) = Some (y, m, d)"
proof (cases "0 \<le> y \<and> y \<le> 9999")
  case True
  then have "yearText y = pad4 (nat y)" by (simp add: yearText_def)
  moreover have "digitsValue (pad4 (nat y)) = nat y"
    using True by (intro digitsValue_pad4) linarith
  ultimately show ?thesis
    using True assms isoDateFields_short[of "nat y" m d] by (simp add: digitsValue_pad2)
next
  case False
  define sg :: nat where "sg = (if y < 0 then 45 else 43)"
  have yt: "yearText y = sg # pad6 (nat \<bar>y\<bar>)"
    using False by (auto simp: yearText_def sg_def)
  have v: "digitsValue (pad6 (nat \<bar>y\<bar>)) = nat \<bar>y\<bar>"
    using assms by (intro digitsValue_pad6) linarith
  have c: "sg = 43 \<or> (sg = 45 \<and> digitsValue (pad6 (nat \<bar>y\<bar>)) \<noteq> 0)"
    unfolding v sg_def by simp
  show ?thesis
    unfolding yt using isoDateFields_long[OF c, of m d] assms
    by (simp add: v digitsValue_pad2 sg_def)
qed


lemma Day_range:
  assumes "\<bar>t\<bar> \<le> maxTime"
  shows "- 100000000 \<le> Day t \<and> Day t \<le> 100000000"
proof -
  have "t div 86400000 \<le> 8640000000000000 div 86400000"
    using assms by (intro zdiv_mono1) (simp_all add: maxTime_def)
  moreover have "(- 8640000000000000) div 86400000 \<le> t div 86400000"
    using assms by (intro zdiv_mono1) (simp_all add: maxTime_def)
  ultimately show ?thesis by (simp add: Day_def msPerDay_def)
qed

lemma YearFromDay_range:
  assumes "- 100000000 \<le> n" "n \<le> 100000000"
  shows "- 999999 \<le> YearFromDay n \<and> YearFromDay n \<le> 999999"
proof -
  define y where "y = YearFromDay n"
  have b1: "DayFromYear y \<le> n" and b2: "n < DayFromYear (y + 1)"
    using YearFromDay_bounds[of n] by (simp_all add: y_def)
  have l1: "146097 * (y - 1970) - 607 < 400 * DayFromYear y"
    by (rule DayFromYear_linear)
  have l2: "400 * DayFromYear (y + 1) < 146097 * (y + 1 - 1970) + 593"
    by (rule DayFromYear_linear)
  have "y \<le> 999999"
    using l1 b1 assms by (simp add: algebra_simps)
  moreover have "- 999999 \<le> y"
    using l2 b2 assms by (simp add: algebra_simps)
  ultimately show ?thesis by (simp add: y_def)
qed

lemma MonthFromDay_date:
  assumes "0 \<le> d" "d < 365 + leap" "leap = 0 \<or> leap = 1"
  shows "d - monthStarts leap ! MonthFromDay leap d < 31"
  using assms by (auto simp: MonthFromDay_def monthStarts_def)

lemma DaysInYear_leap: "DaysInYear y - 365 = 0 \<or> DaysInYear y - 365 = 1"
  using DaysInYear_cases[of y] by auto


lemma isoDateOnly_isoDateOf:
  assumes "\<bar>t\<bar> \<le> maxTime"
  shows "isoDateOnly (isoDateOf t) = Some (Day t * msPerDay)"
proof -
  define n where "n = Day t"
  define y where "y = YearFromDay n"
  define d where "d = n - DayFromYear y"
  define leap where "leap = DaysInYear y - 365"
  define m where "m = MonthFromDay leap d"
  define dd where "dd = nat (d - monthStarts leap ! m + 1)"
  have nr: "- 100000000 \<le> n" "n \<le> 100000000"
    using Day_range[OF assms] by (simp_all add: n_def)
  have yr: "- 999999 \<le> y" "y \<le> 999999"
    using YearFromDay_range[OF nr] by (simp_all add: y_def)
  have d0: "0 \<le> d" and d1: "d < 365 + leap"
    using YearFromDay_bounds[of n] DayFromYear_Suc[of y] by (simp_all add: d_def y_def leap_def)
  have lp: "leap = 0 \<or> leap = 1"
    unfolding leap_def by (rule DaysInYear_leap)
  have mb: "m \<le> 11" "monthStarts leap ! m \<le> d" "d < monthStarts leap ! (m + 1)"
    using MonthFromDay_bounds[OF d0 d1 lp] by (simp_all add: m_def)
  have md: "d - monthStarts leap ! m < 31"
    using MonthFromDay_date[OF d0 d1 lp] by (simp add: m_def)
  have ddv: "int dd = d - monthStarts leap ! m + 1"
    using mb by (simp add: dd_def)
  have iso: "isoDateOf t = yearText y @ [45] @ pad2 (m + 1) @ [45] @ pad2 dd"
    by (simp add: isoDateOf_def Let_def n_def y_def d_def leap_def m_def dd_def)
  have f: "isoDateFields (isoDateOf t) = Some (y, m + 1, dd)"
    unfolding iso using yr mb md ddv by (intro isoDateFields_yearText) simp_all
  have mk: "MakeDay y (int m) (int dd) = n"
    using mb ddv by (simp add: MakeDay_def Let_def leap_def[symmetric] d_def)
  have clip: "TimeClip (n * msPerDay) = Some (n * msPerDay)"
    using nr by (simp add: TimeClip_def maxTime_def msPerDay_def abs_le_iff)
  have valid: "1 \<le> m + 1 \<and> m + 1 \<le> 12 \<and> 1 \<le> dd
               \<and> int dd \<le> monthStarts leap ! (m + 1) - monthStarts leap ! (m + 1 - 1)"
    using mb ddv by simp
  show ?thesis
    using valid by (simp add: isoDateOnly_def f mk MakeDate_def clip leap_def[symmetric] n_def[symmetric])
qed

section \<open>Properties of the date parser and the lead time\<close>

lemma TimeClip_Some: "TimeClip t = Some u \<Longrightarrow> u = t \<and> \<bar>u\<bar> \<le> maxTime"
  by (auto simp: TimeClip_def split: if_splits)

lemma newDateLocal_range: "newDateLocal tza y m dt h mi = Some t \<Longrightarrow> \<bar>t\<bar> \<le> maxTime"
  by (auto simp: newDateLocal_def Let_def dest: TimeClip_Some)

lemma isoDateOnly_range: "isoDateOnly s = Some t \<Longrightarrow> \<bar>t\<bar> \<le> maxTime"
  by (auto simp: isoDateOnly_def split: option.splits if_splits dest: TimeClip_Some)

lemma newDateString_range: "newDateString native s = Some t \<Longrightarrow> \<bar>t\<bar> \<le> maxTime"
  by (auto simp: newDateString_def split: option.splits dest: TimeClip_Some isoDateOnly_range)

lemma newDateString_isoDateOf:
  "\<bar>t\<bar> \<le> maxTime \<Longrightarrow> newDateString native (isoDateOf t) = Some (Day t * msPerDay)"
  by (simp add: newDateString_def isoDateOnly_isoDateOf)

lemma isoDateOf_nonempty: "isoDateOf t \<noteq> []"
  by (simp add: isoDateOf_def Let_def)

lemma parseDate_Some:
  assumes "parseDate tza native x = Some s"
  shows "\<exists>t. \<bar>t\<bar> \<le> maxTime \<and> s = isoDateOf t"
  using assms
  by (auto simp: parseDate_def split: option.splits if_splits prod.splits
           dest: newDateLocal_range newDateString_range)

lemma calculateLeadTime_isoDateOf:
  assumes "\<bar>tc\<bar> \<le> maxTime" "\<bar>tr\<bar> \<le> maxTime"
  shows "calculateLeadTime native (Some (isoDateOf tc)) (Some (isoDateOf tr))
           = (if Day tc \<le> Day tr then Some (Day tr - Day tc) else None)"
proof -
  have "- ((- (Day tr * msPerDay - Day tc * msPerDay)) div msPerDay) = Day tr - Day tc"
  proof -
    have "- (Day tr * msPerDay - Day tc * msPerDay) = (Day tc - Day tr) * msPerDay"
      by (simp add: algebra_simps)
    then show ?thesis by (simp add: msPerDay_def)
  qed
  then show ?thesis
    using assms
    by (simp add: calculateLeadTime_def truthy_def isoDateOf_nonempty newDateString_isoDateOf Let_def)
qed

lemma calculateLeadTime_None:
  "c = None \<or> r = None \<Longrightarrow> calculateLeadTime native c r = None"
  by (auto simp: calculateLeadTime_def truthy_def)

section \<open>Properties of the issue mapper\<close>

lemma mapLoop_result:
  "mapLoop tza native i rows ia ea =
     \<lparr>issues = ia @ map (\<lambda>row. mapRow tza native row (the (findColumn row (js ''issue_key''))))
                        (filter (\<lambda>row. truthy (findColumn row (js ''issue_key''))) rows),
      errors = ea @ map (\<lambda>(j, row). keyMissingError j)
                        (filter (\<lambda>(j, row). \<not> truthy (findColumn row (js ''issue_key'')))
                                (enumerate i rows))\<rparr>"
  by (induction rows arbitrary: i ia ea) (simp_all add: Let_def)

lemma length_filter_enumerate:
  "length (filter (\<lambda>(j, row). P row) (enumerate i rows)) = length (filter P rows)"
  by (induction rows arbitrary: i) simp_all

lemma issues_mapCSVToIssues:
  "issues (mapCSVToIssues tza native rows) =
     map (\<lambda>row. mapRow tza native row (the (findColumn row (js ''issue_key''))))
         (filter (\<lambda>row. truthy (findColumn row (js ''issue_key''))) rows)"
  by (simp add: mapCSVToIssues_def mapLoop_result)

lemma errors_mapCSVToIssues:
  "errors (mapCSVToIssues tza native rows) =
     map (\<lambda>(j, row). keyMissingError j)
         (filter (\<lambda>(j, row). \<not> truthy (findColumn row (js ''issue_key''))) (enumerate 0 rows))"
  by (simp add: mapCSVToIssues_def mapLoop_result)

lemma mapRow_dates:
  "created_date (mapRow tza native row k) = parseDate tza native (findColumn row (js ''created_date''))"
  "resolved_date (mapRow tza native row k) = parseDate tza native (findColumn row (js ''resolved_date''))"
  "lead_time_days (mapRow tza native row k)
     = calculateLeadTime native (created_date (mapRow tza native row k))
                                (resolved_date (mapRow tza native row k))"
  by (simp_all add: mapRow_def Let_def)

text \<open>
  C3. The issues are the rows whose key was found, one issue per such row and in their
  order; the errors are the key-missing messages of the other rows, one per row; so the
  two lengths add up to the number of rows. A date or a time that cannot be parsed
  leaves its field empty and does not remove the issue.
\<close>

theorem C3_one_issue_or_one_error_per_row:
  "issues (mapCSVToIssues tza native rows) =
     map (\<lambda>row. mapRow tza native row (the (findColumn row (js ''issue_key''))))
         (filter (\<lambda>row. truthy (findColumn row (js ''issue_key''))) rows)
   \<and> errors (mapCSVToIssues tza native rows) =
     map (\<lambda>(j, row). keyMissingError j)
         (filter (\<lambda>(j, row). \<not> truthy (findColumn row (js ''issue_key''))) (enumerate 0 rows))
   \<and> length (issues (mapCSVToIssues tza native rows))
       + length (errors (mapCSVToIssues tza native rows)) = length rows"
proof -
  have "length (filter (\<lambda>row. truthy (findColumn row (js ''issue_key''))) rows)
        + length (filter (\<lambda>row. \<not> truthy (findColumn row (js ''issue_key''))) rows) = length rows"
    by (rule sum_length_filter_compl)
  then show ?thesis
    by (simp add: issues_mapCSVToIssues errors_mapCSVToIssues length_filter_enumerate)
qed

text \<open>
  C5. For every mapped issue: each date field is empty or the ISO date of a valid time
  value; the lead time is present exactly when both dates are present and the day of
  the resolution is not before the day of the creation; it is then the number of days
  from the one to the other, which is never negative.
\<close>

theorem C5_lead_time_days:
  assumes "issue \<in> set (issues (mapCSVToIssues tza native rows))"
  shows "(created_date issue = None
            \<or> (\<exists>tc. \<bar>tc\<bar> \<le> maxTime \<and> created_date issue = Some (isoDateOf tc)))
       \<and> (resolved_date issue = None
            \<or> (\<exists>tr. \<bar>tr\<bar> \<le> maxTime \<and> resolved_date issue = Some (isoDateOf tr)))
       \<and> (lead_time_days issue \<noteq> None \<longleftrightarrow>
            (\<exists>tc tr. \<bar>tc\<bar> \<le> maxTime \<and> \<bar>tr\<bar> \<le> maxTime
               \<and> created_date issue = Some (isoDateOf tc)
               \<and> resolved_date issue = Some (isoDateOf tr) \<and> Day tc \<le> Day tr))
       \<and> (\<forall>tc tr. \<bar>tc\<bar> \<le> maxTime \<and> \<bar>tr\<bar> \<le> maxTime
               \<and> created_date issue = Some (isoDateOf tc)
               \<and> resolved_date issue = Some (isoDateOf tr) \<and> Day tc \<le> Day tr
             \<longrightarrow> lead_time_days issue = Some (Day tr - Day tc))
       \<and> (\<forall>n. lead_time_days issue = Some n \<longrightarrow> 0 \<le> n)"
proof -
  from assms obtain row k where issue: "issue = mapRow tza native row k"
    by (auto simp: issues_mapCSVToIssues)
  have lead: "lead_time_days issue
                = calculateLeadTime native (created_date issue) (resolved_date issue)"
    unfolding issue by (rule mapRow_dates)
  have c: "created_date issue = None
             \<or> (\<exists>tc. \<bar>tc\<bar> \<le> maxTime \<and> created_date issue = Some (isoDateOf tc))"
    unfolding issue mapRow_dates using parseDate_Some by (metis not_Some_eq)
  have r: "resolved_date issue = None
             \<or> (\<exists>tr. \<bar>tr\<bar> \<le> maxTime \<and> resolved_date issue = Some (isoDateOf tr))"
    unfolding issue mapRow_dates using parseDate_Some by (metis not_Some_eq)
  have both: "lead_time_days issue = (if Day tc \<le> Day tr then Some (Day tr - Day tc) else None)"
    if "\<bar>tc\<bar> \<le> maxTime" "\<bar>tr\<bar> \<le> maxTime" "created_date issue = Some (isoDateOf tc)"
       "resolved_date issue = Some (isoDateOf tr)" for tc tr
    using that by (simp add: lead calculateLeadTime_isoDateOf)
  have none: "lead_time_days issue = None"
    if "created_date issue = None \<or> resolved_date issue = None"
    unfolding lead using that by (rule calculateLeadTime_None)
  have iff: "lead_time_days issue \<noteq> None \<longleftrightarrow>
            (\<exists>tc tr. \<bar>tc\<bar> \<le> maxTime \<and> \<bar>tr\<bar> \<le> maxTime
               \<and> created_date issue = Some (isoDateOf tc)
               \<and> resolved_date issue = Some (isoDateOf tr) \<and> Day tc \<le> Day tr)"
  proof
    assume nn: "lead_time_days issue \<noteq> None"
    with none have "\<not> (created_date issue = None \<or> resolved_date issue = None)" by blast
    then have "created_date issue \<noteq> None" "resolved_date issue \<noteq> None" by simp_all
    with c r obtain tc tr where t: "\<bar>tc\<bar> \<le> maxTime" "\<bar>tr\<bar> \<le> maxTime"
        "created_date issue = Some (isoDateOf tc)" "resolved_date issue = Some (isoDateOf tr)"
      by auto
    with both[OF t] nn have "Day tc \<le> Day tr" by (auto split: if_splits)
    with t show "\<exists>tc tr. \<bar>tc\<bar> \<le> maxTime \<and> \<bar>tr\<bar> \<le> maxTime
               \<and> created_date issue = Some (isoDateOf tc)
               \<and> resolved_date issue = Some (isoDateOf tr) \<and> Day tc \<le> Day tr"
      by blast
  next
    assume "\<exists>tc tr. \<bar>tc\<bar> \<le> maxTime \<and> \<bar>tr\<bar> \<le> maxTime
               \<and> created_date issue = Some (isoDateOf tc)
               \<and> resolved_date issue = Some (isoDateOf tr) \<and> Day tc \<le> Day tr"
    then show "lead_time_days issue \<noteq> None" using both by auto
  qed
  have val: "\<forall>tc tr. \<bar>tc\<bar> \<le> maxTime \<and> \<bar>tr\<bar> \<le> maxTime
               \<and> created_date issue = Some (isoDateOf tc)
               \<and> resolved_date issue = Some (isoDateOf tr) \<and> Day tc \<le> Day tr
             \<longrightarrow> lead_time_days issue = Some (Day tr - Day tc)"
    using both by auto
  have nonneg: "\<forall>n. lead_time_days issue = Some n \<longrightarrow> 0 \<le> n"
  proof (intro allI impI)
    fix n assume n: "lead_time_days issue = Some n"
    then have "lead_time_days issue \<noteq> None" by simp
    with iff obtain tc tr where t: "\<bar>tc\<bar> \<le> maxTime" "\<bar>tr\<bar> \<le> maxTime"
        "created_date issue = Some (isoDateOf tc)" "resolved_date issue = Some (isoDateOf tr)"
        "Day tc \<le> Day tr"
      by auto
    with both[OF t(1-4)] n show "0 \<le> n" by simp
  qed
  from c r iff val nonneg show ?thesis by blast
qed

lemma lead_row_columns:
  "findColumn lead_row (js ''issue_key'') = Some (js ''K-1'')"
  "findColumn lead_row (js ''created_date'') = Some (js ''2024-01-01'')"
  "findColumn lead_row (js ''resolved_date'') = Some (js ''2024-01-05'')"
  by (simp_all add: findColumn_def possibleNamesOf_def COLUMN_MAPPINGS_def lead_row_def js_def)

lemma day_2024:
  "DayFromYear 2024 = 19723" "DayFromYear 2025 = 20089" "DaysInYear 2024 = 366"
  by (simp_all add: DayFromYear_def DaysInYear_def)

lemma year_2024: "19723 \<le> n \<Longrightarrow> n < 20089 \<Longrightarrow> YearFromDay n = 2024"
  using YearFromDay_unique[of 2024 n] by (simp add: day_2024)

lemma isoDateOf_jan_2024:
  "isoDateOf 1704067200000 = js ''2024-01-01''"
  "isoDateOf 1704412800000 = js ''2024-01-05''"
  apply (simp_all add: isoDateOf_def Day_def msPerDay_def year_2024 day_2024 Let_def)
  apply (simp_all add: MonthFromDay_def monthStarts_def)
  apply (simp_all add: yearText_def pad4_def pad2_def js_def)
  done

lemma isoDateOnly_jan_2024:
  "isoDateOnly (js ''2024-01-01'') = Some 1704067200000"
  "isoDateOnly (js ''2024-01-05'') = Some 1704412800000"
  by (simp_all add: isoDateOnly_def isoDateFields_def js_def isDigit_def digitsValue_def
        day_2024 monthStarts_def MakeDay_def MakeDate_def msPerDay_def TimeClip_def maxTime_def)

lemma no_slash_formats:
  "numericShortMatch (js ''2024-01-01'') = None" "jiraMatch (js ''2024-01-01'') = None"
  "numericShortMatch (js ''2024-01-05'') = None" "jiraMatch (js ''2024-01-05'') = None"
  by (simp_all add: numericShortMatch_def jiraMatch_def takeDigits_def js_def isDigit_def)

lemma iso_tests:
  "isoFormatTest (js ''2024-01-01'')" "isoFormatTest (js ''2024-01-05'')"
  by (simp_all add: isoFormatTest_def js_def isDigit_def)

lemma parseDate_jan_2024:
  "parseDate tza native (Some (js ''2024-01-01'')) = Some (isoDateOf 1704067200000)"
  "parseDate tza native (Some (js ''2024-01-05'')) = Some (isoDateOf 1704412800000)"
  by (simp_all add: parseDate_def no_slash_formats iso_tests newDateString_def isoDateOnly_jan_2024)
     (simp_all add: js_def)

theorem C5_witness:
  "mapRow (\<lambda>t. 0) (\<lambda>s. None) lead_row (js ''K-1'')
     \<in> set (issues (mapCSVToIssues (\<lambda>t. 0) (\<lambda>s. None) [lead_row]))
   \<and> created_date (mapRow (\<lambda>t. 0) (\<lambda>s. None) lead_row (js ''K-1'')) = Some (js ''2024-01-01'')
   \<and> resolved_date (mapRow (\<lambda>t. 0) (\<lambda>s. None) lead_row (js ''K-1'')) = Some (js ''2024-01-05'')
   \<and> lead_time_days (mapRow (\<lambda>t. 0) (\<lambda>s. None) lead_row (js ''K-1'')) = Some 4"
proof -
  let ?issue = "mapRow (\<lambda>t. 0) (\<lambda>s. None) lead_row (js ''K-1'')"
  have mem: "?issue \<in> set (issues (mapCSVToIssues (\<lambda>t. 0) (\<lambda>s. None) [lead_row]))"
    by (simp add: issues_mapCSVToIssues lead_row_columns truthy_def) (simp add: js_def)
  have c: "created_date ?issue = Some (isoDateOf 1704067200000)"
    and r: "resolved_date ?issue = Some (isoDateOf 1704412800000)"
    by (simp_all add: mapRow_dates lead_row_columns parseDate_jan_2024)
  have range: "\<bar>1704067200000\<bar> \<le> maxTime" "\<bar>1704412800000\<bar> \<le> maxTime"
    and days: "Day 1704067200000 = 19723" "Day 1704412800000 = 19727"
    by (simp_all add: maxTime_def Day_def msPerDay_def)
  note val = C5_lead_time_days[OF mem, THEN conjunct2, THEN conjunct2, THEN conjunct2,
                THEN conjunct1, rule_format, of 1704067200000 1704412800000]
  have "lead_time_days ?issue = Some (Day 1704412800000 - Day 1704067200000)"
    by (rule val) (simp add: c r days maxTime_def)
  then have "lead_time_days ?issue = Some 4"
    by (simp add: days)
  then show ?thesis
    using mem c r by (simp add: isoDateOf_jan_2024)
qed

section \<open>The normalizers at particular inputs\<close>

lemma day_2023_2025:
  "DayFromYear 2023 = 19358" "DayFromYear 2026 = 20454" "DaysInYear 2023 = 365"
  "DaysInYear 2025 = 365"
  by (simp_all add: DayFromYear_def DaysInYear_def)

lemma year_2023: "19358 \<le> n \<Longrightarrow> n < 19723 \<Longrightarrow> YearFromDay n = 2023"
  using YearFromDay_unique[of 2023 n] by (simp add: day_2024 day_2023_2025)

lemma year_2025: "20089 \<le> n \<Longrightarrow> n < 20454 \<Longrightarrow> YearFromDay n = 2025"
  using YearFromDay_unique[of 2025 n] by (simp add: day_2024 day_2023_2025)

lemma invalid_date_matches:
  "numericShortMatch (js ''31/04/24 10:00'')
     = Some (js ''31'', js ''04'', js ''24'', js ''10'', js ''00'')"
  "numericShortMatch (js ''01/13/2024'') = None" "jiraMatch (js ''01/13/2024'') = None"
  "\<not> isoFormatTest (js ''01/13/2024'')"
  "slashMatch (js ''01/13/2024'') = Some (js ''01'', js ''13'', js ''2024'')"
  "numericShortMatch (js ''00/01/2024'') = None" "jiraMatch (js ''00/01/2024'') = None"
  "\<not> isoFormatTest (js ''00/01/2024'')"
  "slashMatch (js ''00/01/2024'') = Some (js ''00'', js ''01'', js ''2024'')"
  by (simp_all add: numericShortMatch_def jiraMatch_def slashMatch_def isoFormatTest_def
        takeDigits_def takeLetters3_def expectChar_def takeSpaces1_def expectEnd_def js_def
        isDigit_def isLetter_def isWhiteSpace_def)

lemma invalid_date_values:
  "newDateLocal (\<lambda>t. 0) (2000 + parseInt (js ''24'')) (parseInt (js ''04'') - 1)
     (parseInt (js ''31'')) (parseInt (js ''10'')) (parseInt (js ''00'')) = Some 1714557600000"
  "newDateLocal (\<lambda>t. 0) (parseInt (js ''2024'')) (parseInt (js ''13'') - 1)
     (parseInt (js ''01'')) 0 0 = Some 1735689600000"
  "newDateLocal (\<lambda>t. 0) (parseInt (js ''2024'')) (parseInt (js ''01'') - 1)
     (parseInt (js ''00'')) 0 0 = Some 1703980800000"
  by (simp_all add: parseInt_def digitsValue_def js_def newDateLocal_def MakeDate_def MakeDay_def
        MakeTime_def day_2024 day_2023_2025 monthStarts_def msPerDay_def TimeClip_def maxTime_def)

lemma invalid_date_texts:
  "isoDateOf 1714557600000 = js ''2024-05-01''"
  "isoDateOf 1735689600000 = js ''2025-01-01''"
  "isoDateOf 1703980800000 = js ''2023-12-31''"
  apply (simp_all add: isoDateOf_def Day_def msPerDay_def year_2023 year_2024 year_2025
           day_2024 day_2023_2025 Let_def)
  apply (simp_all add: MonthFromDay_def monthStarts_def)
  apply (simp_all add: yearText_def pad4_def pad2_def js_def)
  done

text \<open>
  C6. Components that form no calendar date are not rejected: the date constructor
  carries them over. With the local time zone at UTC, day 31 of April gives the first
  of May, month 13 gives January of the next year, and day 0 gives the last day of the
  month before.
\<close>

theorem C6_invalid_components_roll_over:
  "parseDate (\<lambda>t. 0) native (Some (js ''31/04/24 10:00'')) = Some (js ''2024-05-01'')
   \<and> parseDate (\<lambda>t. 0) native (Some (js ''01/13/2024'')) = Some (js ''2025-01-01'')
   \<and> parseDate (\<lambda>t. 0) native (Some (js ''00/01/2024'')) = Some (js ''2023-12-31'')"
proof -
  have ne: "js ''31/04/24 10:00'' \<noteq> []" "js ''01/13/2024'' \<noteq> []" "js ''00/01/2024'' \<noteq> []"
    by (simp_all add: js_def)
  show ?thesis
    by (simp add: parseDate_def ne invalid_date_matches invalid_date_values invalid_date_texts)
qed

text \<open>
  C7. A compound duration that starts with a number is taken by the bare-number branch:
  \<open>parseFloat\<close> converts the leading number and ignores the rest, so one hour and
  thirty minutes is read as 1, and two days and four hours as 2. The token branch is
  reached only by a text that does not start with a number.
\<close>

theorem C7_compound_duration_read_as_leading_number:
  "parseTimeValue (Some (js ''1h 30m'')) = Some (Finite 1)
   \<and> parseTimeValue (Some (js ''2d 4h'')) = Some (Finite 2)
   \<and> parseTimeValue (Some (js ''7200'')) = Some (Finite 2)
   \<and> parseTimeValue (Some (js ''4'')) = Some (Finite 4)
   \<and> parseTimeValue (Some (js ''x 1h 30m'')) = Some (Finite (3 / 2))"
  by (simp add: parseTimeValue_def truthy_def js_def trim_def isWhiteSpace_def parseFloat_def
        unsignedLiteral_def isDigit_def digitsValue_def exponentOf_def scale10_def Let_def
        round2_def tokenAt_def capturedValue_def)
     (simp add: floor_unique)

theorem C7_witness:
  "parseTimeValue (Some (js ''1h 30m'')) \<noteq> Some (Finite (3 / 2))"
  using C7_compound_duration_read_as_leading_number by simp

text \<open>
  C9. The key is tested before it is trimmed: a row whose key column holds only white
  space passes the test and yields an issue whose \<open>issue_key\<close> is the empty string, and
  no error.
\<close>

theorem C9_blank_key_gives_empty_issue_key:
  "issues (mapCSVToIssues tza native [[(js ''Key'', js '' '')]])
     = [mapRow tza native [(js ''Key'', js '' '')] (js '' '')]
   \<and> issue_key (mapRow tza native [(js ''Key'', js '' '')] (js '' '')) = []
   \<and> errors (mapCSVToIssues tza native [[(js ''Key'', js '' '')]]) = []"
proof -
  have k: "findColumn [(js ''Key'', js '' '')] (js ''issue_key'') = Some (js '' '')"
    by (simp add: findColumn_def possibleNamesOf_def COLUMN_MAPPINGS_def js_def)
  have t: "trim (js '' '') = []"
    by (simp add: trim_def isWhiteSpace_def js_def)
  have ne: "js '' '' \<noteq> []"
    by (simp add: js_def)
  show ?thesis
    by (simp add: issues_mapCSVToIssues errors_mapCSVToIssues k truthy_def ne mapRow_def Let_def t)
qed

section \<open>Properties of the version comparator\<close>

lemma compareLoop_beyond:
  "maxLen \<le> i \<Longrightarrow> compareLoop i maxLen numsA numsB = 0"
  by (simp add: compareLoop.simps)











lemma trim_nonempty: "trim v \<noteq> [] \<Longrightarrow> v \<noteq> []"
  by (auto simp: trim_Nil)










section \<open>Properties of the tabular parser\<close>

lemma parseCSVLineLoop_nonempty: "parseCSVLineLoop s result current inQuotes \<noteq> []"
  by (induction s result current inQuotes rule: parseCSVLineLoop.induct)
     (auto split: list.splits)

lemma parseCSVLine_nonempty: "parseCSVLine line \<noteq> []"
  by (simp add: parseCSVLine_def parseCSVLineLoop_nonempty)

lemma parseDataLine_None_iff:
  "parseDataLine headers line = None \<longleftrightarrow> parseCSVLine line = [[]]"
proof -
  have "length vs = 1 \<and> vs ! 0 = [] \<longleftrightarrow> vs = [[]]" for vs :: "jsstring list"
    by (cases vs) auto
  then show ?thesis
    using parseCSVLine_nonempty[of line] by (auto simp: parseDataLine_def Let_def)
qed

lemma parseDataLine_Some:
  "parseCSVLine line \<noteq> [[]] \<Longrightarrow>
     parseDataLine headers line = Some (buildRow headers (parseCSVLine line))"
  using parseDataLine_None_iff[of headers line] by (auto simp: parseDataLine_def Let_def)

lemma parseDataLine_skip:
  "parseCSVLine line = [[]] \<Longrightarrow> parseDataLine headers line = None"
  by (simp add: parseDataLine_None_iff)

lemma map_the_filter:
  "map the (filter (\<lambda>r. r \<noteq> None) (map (parseDataLine headers) ls))
     = map (\<lambda>line. buildRow headers (parseCSVLine line))
           (filter (\<lambda>line. parseCSVLine line \<noteq> [[]]) ls)"
  by (induction ls) (auto simp: parseDataLine_skip parseDataLine_Some)

lemma showNat_last: "showNat n \<noteq> [] \<and> last (showNat n) = 48 + n mod 10"
  by (subst (1 2) showNat.simps) auto

lemma keys_insertIndexKey:
  "set (objectKeys (insertIndexKey k v row)) = insert k (set (objectKeys row))"
proof (induction row)
  case Nil
  then show ?case by (simp add: objectKeys_def)
next
  case (Cons kv row)
  obtain k' v' where kv: "kv = (k', v')" by (cases kv)
  have tl: "objectKeys (kv # row) = k' # objectKeys row"
    by (simp add: objectKeys_def kv)
  show ?case
  proof (cases "isArrayIndex k' \<and> digitsValue k' < digitsValue k")
    case True
    then have e: "objectKeys (insertIndexKey k v (kv # row)) = k' # objectKeys (insertIndexKey k v row)"
      by (simp add: kv objectKeys_def)
    show ?thesis
      unfolding e tl using Cons.IH by auto
  next
    case False
    then have e: "objectKeys (insertIndexKey k v (kv # row)) = k # objectKeys (kv # row)"
      by (auto simp: kv objectKeys_def)
    show ?thesis
      unfolding e by simp
  qed
qed

lemma distinct_insertIndexKey:
  "k \<notin> set (objectKeys row) \<Longrightarrow> distinct (objectKeys row)
     \<Longrightarrow> distinct (objectKeys (insertIndexKey k v row))"
proof (induction row)
  case Nil
  then show ?case by (simp add: objectKeys_def)
next
  case (Cons kv row)
  obtain k' v' where kv: "kv = (k', v')" by (cases kv)
  have tl: "objectKeys (kv # row) = k' # objectKeys row"
    by (simp add: objectKeys_def kv)
  have IH: "distinct (objectKeys (insertIndexKey k v row))"
    using Cons by (simp add: tl)
  show ?case
  proof (cases "isArrayIndex k' \<and> digitsValue k' < digitsValue k")
    case True
    then have e: "objectKeys (insertIndexKey k v (kv # row)) = k' # objectKeys (insertIndexKey k v row)"
      by (simp add: kv objectKeys_def)
    show ?thesis
      unfolding e using IH Cons.prems by (auto simp: keys_insertIndexKey tl)
  next
    case False
    then have e: "objectKeys (insertIndexKey k v (kv # row)) = k # objectKeys (kv # row)"
      by (auto simp: kv objectKeys_def)
    show ?thesis
      unfolding e using Cons.prems by simp
  qed
qed

lemma keys_update_in_place:
  "objectKeys (map (\<lambda>(k', v'). if k' = k then (k', v) else (k', v')) row) = objectKeys row"
  by (induction row) (auto simp: objectKeys_def)

lemma keys_append: "objectKeys (row @ [(k, v)]) = objectKeys row @ [k]"
  by (simp add: objectKeys_def)

lemma keys_setProperty:
  "set (objectKeys (setProperty row k v))
     = (if k = js ''__proto__'' then set (objectKeys row) else insert k (set (objectKeys row)))"
  by (auto simp: setProperty_def keys_insertIndexKey keys_update_in_place keys_append)

lemma distinct_setProperty:
  "distinct (objectKeys row) \<Longrightarrow> distinct (objectKeys (setProperty row k v))"
  by (auto simp: setProperty_def distinct_insertIndexKey keys_update_in_place keys_append)

lemma buildRow_fold:
  "set (objectKeys (foldl (\<lambda>row (header, index). setProperty row header (f index)) row0 hs))
     = set (objectKeys row0) \<union> (set (map fst hs) - {js ''__proto__''})
   \<and> (distinct (objectKeys row0) \<longrightarrow>
        distinct (objectKeys (foldl (\<lambda>row (header, index). setProperty row header (f index)) row0 hs)))"
proof (induction hs arbitrary: row0)
  case Nil
  then show ?case by simp
next
  case (Cons hi hs)
  obtain h i where hi: "hi = (h, i)" by (cases hi)
  show ?case
    unfolding hi using Cons.IH[of "setProperty row0 h (f i)"]
    by (auto simp: keys_setProperty distinct_setProperty split: if_splits)
qed

lemma keys_buildRow:
  "set (objectKeys (buildRow headers values)) = set headers - {js ''__proto__''}
   \<and> distinct (objectKeys (buildRow headers values))"
proof -
  have "map fst (zip headers [0 ..< length headers]) = headers"
    by (simp add: map_fst_zip)
  then show ?thesis
    using buildRow_fold[of "valueAt values" "[]" "zip headers [0 ..< length headers]"]
    by (simp add: buildRow_def objectKeys_def)
qed

lemma last_js_proto: "last (js ''__proto__'') = 95"
  by (simp add: js_def)

lemma suffixed_not_proto:
  "h @ js ''_'' @ showNat n \<noteq> js ''__proto__''"
proof
  assume e: "h @ js ''_'' @ showNat n = js ''__proto__''"
  have "last (h @ js ''_'' @ showNat n) = 48 + n mod 10"
    using showNat_last[of n] by simp
  with e have "48 + n mod 10 = 95" by (simp add: last_js_proto)
  moreover have "n mod 10 < 10" by simp
  ultimately show False by linarith
qed

lemma NaN_not_proto: "h @ js ''_NaN'' \<noteq> js ''__proto__''"
proof
  assume e: "h @ js ''_NaN'' = js ''__proto__''"
  have "last (h @ js ''_NaN'') = 78" by (simp add: js_def)
  with e show False by (simp add: last_js_proto)
qed

lemma object_not_proto: "h @ js ''_[object Object]'' \<noteq> js ''__proto__''"
proof
  assume e: "h @ js ''_[object Object]'' = js ''__proto__''"
  have "last (h @ js ''_[object Object]'') = 93" by (simp add: js_def)
  with e show False by (simp add: last_js_proto)
qed

lemma uniqueHeaders_no_proto: "js ''__proto__'' \<notin> set (uniqueHeaders headerCounts rawHeaders)"
proof (induction rawHeaders arbitrary: headerCounts)
  case Nil
  then show ?case by simp
next
  case (Cons header rawHeaders)
  show ?case
    using Cons.IH suffixed_not_proto[of "trim header"] NaN_not_proto[of "trim header"]
      object_not_proto[of "trim header"]
    by (auto simp: Let_def split: option.splits dest: sym)
qed

lemma uniqueHeaders_spec:
  assumes "\<forall>h \<in> set rawHeaders. \<not> inheritedName (trim h)"
    and "\<forall>h. headerCounts h = (if count_list seen h = 0 then None
                                 else Some (Some (count_list seen h)))"
  shows "uniqueHeaders headerCounts rawHeaders = spec_suffixDuplicates seen (map trim rawHeaders)"
  using assms
proof (induction rawHeaders arbitrary: headerCounts seen)
  case Nil
  then show ?case by simp
next
  case (Cons header rawHeaders)
  define h where "h = trim header"
  have nh: "h \<noteq> js ''__proto__''" "h \<notin> set objectPrototypeMethods"
    using Cons.prems(1) by (auto simp: inheritedName_def h_def)
  show ?case
  proof (cases "count_list seen h = 0")
    case True
    then have hc: "headerCounts h = None" using Cons.prems(2) by simp
    have inv: "\<forall>x. (headerCounts(h \<mapsto> Some 1)) x
                  = (if count_list (seen @ [h]) x = 0 then None
                     else Some (Some (count_list (seen @ [h]) x)))"
      using Cons.prems(2) True by auto
    have "uniqueHeaders (headerCounts(h \<mapsto> Some 1)) rawHeaders
            = spec_suffixDuplicates (seen @ [h]) (map trim rawHeaders)"
      using Cons.prems(1) inv by (intro Cons.IH) simp_all
    then show ?thesis
      using True hc nh by (simp add: h_def[symmetric] Let_def)
  next
    case False
    then have hc: "headerCounts h = Some (Some (count_list seen h))" using Cons.prems(2) by simp
    have inv: "\<forall>x. (headerCounts(h \<mapsto> Some (count_list seen h + 1))) x
                  = (if count_list (seen @ [h]) x = 0 then None
                     else Some (Some (count_list (seen @ [h]) x)))"
      using Cons.prems(2) False by auto
    have "uniqueHeaders (headerCounts(h \<mapsto> Some (count_list seen h + 1))) rawHeaders
            = spec_suffixDuplicates (seen @ [h]) (map trim rawHeaders)"
      using Cons.prems(1) inv by (intro Cons.IH) simp_all
    then show ?thesis
      using False hc by (simp add: h_def[symmetric] Let_def)
  qed
qed

text \<open>
  C8, with the skipped lines taken into account. With fewer than two non-blank lines
  the result is empty. Otherwise
  there is one row for every non-blank data line whose fields are not a single empty
  field, in order, so at most one row per data line; the keys of every row are distinct
  and are the headers as the parser disambiguates them; and when no trimmed header is the
  name of a member of \<open>Object.prototype\<close>, these headers are the names with the suffix
  \<open>_2\<close>, \<open>_3\<close>, ... on the second, third, ... occurrence.
\<close>

theorem C8_parseCSV_rows_and_keys:
  "(length (nonBlankLines text) < 2 \<longrightarrow> parseCSV text = [])
   \<and> (2 \<le> length (nonBlankLines text) \<longrightarrow>
        parseCSV text =
          map (\<lambda>line. buildRow (uniqueHeaders Map.empty (parseCSVLine (hd (nonBlankLines text))))
                               (parseCSVLine line))
              (filter (\<lambda>line. parseCSVLine line \<noteq> [[]]) (tl (nonBlankLines text)))
        \<and> length (parseCSV text)
            = length (filter (\<lambda>line. parseCSVLine line \<noteq> [[]]) (tl (nonBlankLines text)))
        \<and> length (parseCSV text) \<le> length (nonBlankLines text) - 1
        \<and> (\<forall>row \<in> set (parseCSV text).
              set (objectKeys row)
                = set (uniqueHeaders Map.empty (parseCSVLine (hd (nonBlankLines text))))
              \<and> distinct (objectKeys row))
        \<and> ((\<forall>h \<in> set (parseCSVLine (hd (nonBlankLines text))). \<not> inheritedName (trim h)) \<longrightarrow>
              uniqueHeaders Map.empty (parseCSVLine (hd (nonBlankLines text)))
                = spec_suffixDuplicates [] (map trim (parseCSVLine (hd (nonBlankLines text))))))"
proof -
  define lines where "lines = nonBlankLines text"
  define headers where "headers = uniqueHeaders Map.empty (parseCSVLine (hd lines))"
  have short: "length lines < 2 \<Longrightarrow> parseCSV text = []"
    by (simp add: parseCSV_def lines_def Let_def)
  have rows: "parseCSV text = map (\<lambda>line. buildRow headers (parseCSVLine line))
                                  (filter (\<lambda>line. parseCSVLine line \<noteq> [[]]) (tl lines))"
    if "2 \<le> length lines"
    using that
    unfolding parseCSV_def Let_def lines_def[symmetric] headers_def[symmetric] map_the_filter
    by simp
  have len: "length (filter (\<lambda>line. parseCSVLine line \<noteq> [[]]) (tl lines)) \<le> length lines - 1"
    using length_filter_le[of "\<lambda>line. parseCSVLine line \<noteq> [[]]" "tl lines"] by simp
  have keys: "set (objectKeys row) = set headers \<and> distinct (objectKeys row)"
    if "2 \<le> length lines" "row \<in> set (parseCSV text)" for row
  proof -
    from that rows obtain line where "row = buildRow headers (parseCSVLine line)" by auto
    moreover have "js ''__proto__'' \<notin> set headers"
      unfolding headers_def by (rule uniqueHeaders_no_proto)
    ultimately show ?thesis using keys_buildRow[of headers "parseCSVLine line"] by simp
  qed
  have spec: "headers = spec_suffixDuplicates [] (map trim (parseCSVLine (hd lines)))"
    if "\<forall>h \<in> set (parseCSVLine (hd lines)). \<not> inheritedName (trim h)"
    unfolding headers_def using that by (intro uniqueHeaders_spec) simp_all
  show ?thesis
    unfolding lines_def[symmetric] headers_def[symmetric]
    using short rows len keys spec by (simp add: rows)
qed

lemma showNat_2: "showNat (Suc (Suc 0)) = [50]"
  by (simp add: showNat.simps)

lemma csv_text_lines:
  "nonBlankLines csv_text = [js ''Key,Fix,Fix'', js ''K1,1.0,1.2'']"
  "nonBlankLines csv_text_empty_field = [js ''a'', [34, 34]]"
  by (simp_all add: nonBlankLines_def csv_text_def csv_text_empty_field_def trim_def
        isWhiteSpace_def js_def)

lemma csv_text_fields:
  "parseCSVLine (js ''Key,Fix,Fix'') = [js ''Key'', js ''Fix'', js ''Fix'']"
  "parseCSVLine (js ''K1,1.0,1.2'') = [js ''K1'', js ''1.0'', js ''1.2'']"
  "parseCSVLine (js ''a'') = [js ''a'']"
  "parseCSVLine [34, 34] = [[]]"
  by (simp_all add: parseCSVLine_def trim_def isWhiteSpace_def js_def)

lemma csv_text_headers:
  "uniqueHeaders Map.empty [js ''Key'', js ''Fix'', js ''Fix'']
     = [js ''Key'', js ''Fix'', js ''Fix_2'']"
  by (simp add: inheritedName_def objectPrototypeMethods_def trim_def isWhiteSpace_def
        showNat_2 js_def)

lemma csv_text_row:
  "buildRow [js ''Key'', js ''Fix'', js ''Fix_2''] [js ''K1'', js ''1.0'', js ''1.2'']
     = [(js ''Key'', js ''K1''), (js ''Fix'', js ''1.0''), (js ''Fix_2'', js ''1.2'')]"
  by (simp add: buildRow_def setProperty_def objectKeys_def isArrayIndex_def isDigit_def
        valueAt_def upt_rec js_def)

theorem C8_counterexample:
  "2 \<le> length (nonBlankLines csv_text_empty_field)
   \<and> length (parseCSV csv_text_empty_field) \<noteq> length (nonBlankLines csv_text_empty_field) - 1"
  by (simp add: parseCSV_def csv_text_lines parseDataLine_def csv_text_fields Let_def)

theorem C8_witness:
  "2 \<le> length (nonBlankLines csv_text)
   \<and> parseCSV csv_text
       = [[(js ''Key'', js ''K1''), (js ''Fix'', js ''1.0''), (js ''Fix_2'', js ''1.2'')]]
   \<and> length (parseCSV csv_text) \<le> length (nonBlankLines csv_text) - 1"
proof -
  have two: "2 \<le> length (nonBlankLines csv_text)"
    by (simp add: csv_text_lines)
  have ne: "js ''K1'' \<noteq> []"
    by (simp add: js_def)
  from C8_parseCSV_rows_and_keys[of csv_text] two
  have rows: "parseCSV csv_text =
          map (\<lambda>line. buildRow (uniqueHeaders Map.empty (parseCSVLine (hd (nonBlankLines csv_text))))
                               (parseCSVLine line))
              (filter (\<lambda>line. parseCSVLine line \<noteq> [[]]) (tl (nonBlankLines csv_text)))"
    and len: "length (parseCSV csv_text) \<le> length (nonBlankLines csv_text) - 1"
    by blast+
  have "parseCSV csv_text
          = [[(js ''Key'', js ''K1''), (js ''Fix'', js ''1.0''), (js ''Fix_2'', js ''1.2'')]]"
    unfolding rows csv_text_lines list.sel csv_text_fields csv_text_headers
    using ne by (simp add: csv_text_fields csv_text_row)
  with two len show ?thesis by simp
qed

end
